theory Spec2Isabelle
  imports Complex_Main "HOL-Library.Char_ord" "HOL-Library.List_Lexorder" "HOL-Library.Option_ord"
    "HOL-Library.Sublist" "HOL-Library.Multiset"
begin

section \<open>BillBrain backend: sessions, receipt listing and reports\<close>

text \<open>
  A shallow embedding of \<^verbatim>\<open>backend/server.py\<close>. The document store is a record of
  collections, each a list of documents in storage order; \<^verbatim>\<open>find_one\<close> returns the
  first document that matches. Every handler takes the store and the request and returns
  a value of \<open>error + 'a\<close>: each \<^verbatim>\<open>raise\<close> of the source is an \<open>Inl\<close>.
\<close>

subsection \<open>Errors and values\<close>

datatype error =
    HTTPException nat string
  | ValueError
  | IndexError
  | AttributeError
  | TypeError
  | KeyError
  | OverflowError
  | OperationFailure

text \<open>Field values of a loosely typed document (the user documents).\<close>

datatype jvalue = VStr string | VInt int | VBool bool | VNull

type_synonym doc = "(string \<times> jvalue) list"

definition doc_get :: "doc \<Rightarrow> string \<Rightarrow> jvalue option" where
  "doc_get d k = map_of d k"

text \<open>A projection \<^verbatim>\<open>{k: 0, ...}\<close> removes the listed keys.\<close>

definition project_out :: "string list \<Rightarrow> doc \<Rightarrow> doc" where
  "project_out ks d = filter (\<lambda>(k, v). k \<notin> set ks) d"

text \<open>\<^verbatim>\<open>$set\<close> of one field: the value is replaced in place, or appended.\<close>

fun doc_set :: "string \<Rightarrow> jvalue \<Rightarrow> doc \<Rightarrow> doc" where
  "doc_set k v [] = [(k, v)]"
| "doc_set k v ((k', v') # d) = (if k' = k then (k, v) # d else (k', v') # doc_set k v d)"

definition doc_set_all :: "doc \<Rightarrow> doc \<Rightarrow> doc" where
  "doc_set_all upd d = foldl (\<lambda>acc (k, v). doc_set k v acc) d upd"

subsection \<open>Time\<close>

text \<open>
  A \<^verbatim>\<open>datetime\<close> is its wall-clock reading in microseconds and, when it is aware, the
  offset of its zone from UTC. Comparing two aware datetimes compares their instants.
\<close>

record datetime =
  wall :: int
  tzinfo :: "int option"

text \<open>\<^verbatim>\<open>a < b\<close> on datetimes: a naive and an aware one do not compare.\<close>

definition dt_less :: "datetime \<Rightarrow> datetime \<Rightarrow> error + bool" where
  "dt_less a b =
     (case (tzinfo a, tzinfo b) of
        (Some oa, Some ob) \<Rightarrow> Inr (wall a - oa < wall b - ob)
      | (None, None) \<Rightarrow> Inr (wall a < wall b)
      | _ \<Rightarrow> Inl TypeError)"

text \<open>\<^verbatim>\<open>datetime.now(timezone.utc)\<close> at the instant \<open>now\<close>.\<close>

definition now_utc :: "int \<Rightarrow> datetime" where
  "now_utc now = \<lparr>wall = now, tzinfo = Some 0\<rparr>"

text \<open>
  A stored expiry is a datetime or a string; a string comes with what
  \<^verbatim>\<open>datetime.fromisoformat\<close> makes of it, \<open>None\<close> where that raises.
\<close>

datatype expires_val = ExpDatetime datetime | ExpStr string "datetime option"

subsection \<open>The store\<close>

text \<open>
  A session, a receipt and a category, with the fields the handlers below read. A
  receipt holds what \<^verbatim>\<open>create_receipt\<close> stores (lines 352 to 366); its section and its
  category may be null. Amounts are of a linearly ordered type \<open>'a\<close> with an addition; the
  examples and the CSV export take the rational number a finite float stands for.
\<close>

record session =
  session_token :: string
  s_user_id :: string
  expires_at :: expires_val

record ('a) receipt =
  receipt_id :: string
  r_user_id :: string
  merchant_name :: string
  r_date :: string
  r_total :: 'a
  r_tax :: 'a
  payment_method :: string
  r_section :: "string option"
  r_category_id :: "string option"
  r_notes :: string
  created_at :: string

record category =
  c_category_id :: string
  c_name :: string

record ('a) db =
  user_sessions :: "session list"
  users :: "doc list"
  receipts :: "'a receipt list"
  categories :: "category list"

text \<open>\<^verbatim>\<open>find_one\<close>: the first match, or \<open>None\<close>.\<close>

definition find_one :: "('d \<Rightarrow> bool) \<Rightarrow> 'd list \<Rightarrow> 'd option" where
  "find_one p ds = List.find p ds"

subsection \<open>Strings of the request\<close>

text \<open>
  \<^verbatim>\<open>str.split(sep)\<close> for a non-empty separator: the pieces between the
  non-overlapping occurrences of \<open>sep\<close>, scanning from the left. The counter is the
  number of characters of a matched separator still to skip.
\<close>

fun split_aux :: "string \<Rightarrow> nat \<Rightarrow> string \<Rightarrow> string \<Rightarrow> string list" where
  "split_aux sep k acc [] = [rev acc]"
| "split_aux sep (Suc k) acc (c # cs) = split_aux sep k acc cs"
| "split_aux sep 0 acc (c # cs) =
     (if prefix sep (c # cs) then rev acc # split_aux sep (length sep - 1) [] cs
      else split_aux sep 0 (c # acc) cs)"

definition py_split :: "string \<Rightarrow> string \<Rightarrow> string list" where
  "py_split sep s = split_aux sep 0 [] s"

definition startswith :: "string \<Rightarrow> string \<Rightarrow> bool" where
  "startswith s p = prefix p s"

subsection \<open>The authorization gate\<close>

text \<open>
  \<^verbatim>\<open>get_current_user\<close> (server.py, lines 85 to 108). The arguments beyond the store
  and the header are the clock reading \<open>now\<close>, the instant of
  \<^verbatim>\<open>datetime.now(timezone.utc)\<close> in microseconds. The store is returned with the
  result.
\<close>

definition resolve_expiry :: "expires_val \<Rightarrow> error + datetime" where
  "resolve_expiry e =
     (case e of
        ExpDatetime t \<Rightarrow> Inr t
      | ExpStr s parsed \<Rightarrow> (case parsed of None \<Rightarrow> Inl ValueError | Some t \<Rightarrow> Inr t))"

definition as_utc :: "datetime \<Rightarrow> datetime" where
  "as_utc t = (if tzinfo t = None then t\<lparr>tzinfo := Some 0\<rparr> else t)"

definition bearer_token :: "string \<Rightarrow> error + string" where
  "bearer_token auth_header =
     (case py_split ''Bearer '' auth_header of
        _ # t # _ \<Rightarrow> Inr t
      | _ \<Rightarrow> Inl IndexError)"

definition find_user :: "string \<Rightarrow> doc list \<Rightarrow> doc option" where
  "find_user uid us =
     map_option (project_out [''_id''])
       (find_one (\<lambda>d. doc_get d ''user_id'' = Some (VStr uid)) us)"

definition get_current_user ::
  "int \<Rightarrow> 'a db \<Rightarrow> string option \<Rightarrow> (error + doc) \<times> 'a db" where
  "get_current_user now d auth_header =
     (case auth_header of
        None \<Rightarrow> (Inl (HTTPException 401 ''Not authenticated''), d)
      | Some h \<Rightarrow>
          if h = [] \<or> \<not> startswith h ''Bearer '' then
            (Inl (HTTPException 401 ''Not authenticated''), d)
          else
            (case bearer_token h of
               Inl e \<Rightarrow> (Inl e, d)
             | Inr token \<Rightarrow>
                 (case find_one (\<lambda>s. session_token s = token) (user_sessions d) of
                    None \<Rightarrow> (Inl (HTTPException 401 ''Invalid session''), d)
                  | Some sess \<Rightarrow>
                      (case resolve_expiry (expires_at sess) of
                         Inl e \<Rightarrow> (Inl e, d)
                       | Inr t \<Rightarrow>
                           (case dt_less (as_utc t) (now_utc now) of
                              Inl e \<Rightarrow> (Inl e, d)
                            | Inr expired \<Rightarrow>
                                if expired then
                                  (Inl (HTTPException 401 ''Session expired''), d)
                                else
                                  (case find_user (s_user_id sess) (users d) of
                                     None \<Rightarrow> (Inl (HTTPException 401 ''User not found''), d)
                                   | Some user \<Rightarrow>
                                       if user = [] then
                                         (Inl (HTTPException 401 ''User not found''), d)
                                       else
                                         (Inr (filter (\<lambda>(k, v). k \<noteq> ''password_hash'') user),
                                          d)))))))"

text \<open>\<^verbatim>\<open>GET /auth/me\<close> (lines 239 to 242).\<close>

definition get_me ::
  "int \<Rightarrow> 'a db \<Rightarrow> string option \<Rightarrow> (error + doc) \<times> 'a db" where
  "get_me now d auth_header = get_current_user now d auth_header"

text \<open>
  \<^verbatim>\<open>PUT /settings\<close> (lines 660 to 667). The body has the two optional fields
  \<^verbatim>\<open>currency\<close> and \<^verbatim>\<open>theme\<close>; a field that is unset or null is left out of the
  update. \<^verbatim>\<open>update_one\<close> changes the first matching document.
\<close>

record user_settings_update =
  currency :: "string option"
  theme :: "string option"

definition settings_update_data :: "user_settings_update \<Rightarrow> doc" where
  "settings_update_data u =
     (case currency u of None \<Rightarrow> [] | Some c \<Rightarrow> [(''currency'', VStr c)]) @
     (case theme u of None \<Rightarrow> [] | Some t \<Rightarrow> [(''theme'', VStr t)])"

fun update_one :: "('d \<Rightarrow> bool) \<Rightarrow> ('d \<Rightarrow> 'd) \<Rightarrow> 'd list \<Rightarrow> 'd list" where
  "update_one p f [] = []"
| "update_one p f (x # xs) = (if p x then f x # xs else x # update_one p f xs)"

text \<open>\<^verbatim>\<open>user["user_id"]\<close>, used as a string in the queries.\<close>

definition user_id_of :: "doc \<Rightarrow> error + string" where
  "user_id_of user =
     (case doc_get user ''user_id'' of
        None \<Rightarrow> Inl KeyError
      | Some (VStr uid) \<Rightarrow> Inr uid
      | Some _ \<Rightarrow> Inl TypeError)"

text \<open>
  Every handler starts with \<^verbatim>\<open>user = await get_current_user(request)\<close> and reads
  \<^verbatim>\<open>user["user_id"]\<close>; \<open>with_user\<close> runs the rest of a read-only handler on
  that id.
\<close>

definition current_user_id :: "int \<Rightarrow> 'a db \<Rightarrow> string option \<Rightarrow> error + string" where
  "current_user_id now d auth_header =
     (case fst (get_current_user now d auth_header) of
        Inl e \<Rightarrow> Inl e
      | Inr user \<Rightarrow> user_id_of user)"

definition with_user ::
  "int \<Rightarrow> 'a db \<Rightarrow> string option \<Rightarrow> (string \<Rightarrow> error + 'b) \<Rightarrow> error + 'b" where
  "with_user now d auth_header body =
     (case current_user_id now d auth_header of
        Inl e \<Rightarrow> Inl e
      | Inr uid \<Rightarrow> body uid)"

definition update_settings ::
  "int \<Rightarrow> 'a db \<Rightarrow> string option \<Rightarrow> user_settings_update
     \<Rightarrow> (error + doc option) \<times> 'a db" where
  "update_settings now d auth_header data =
     (case get_current_user now d auth_header of
        (Inl e, d1) \<Rightarrow> (Inl e, d1)
      | (Inr user, d1) \<Rightarrow>
          (case user_id_of user of
             Inl e \<Rightarrow> (Inl e, d1)
           | Inr uid \<Rightarrow>
               let update_data = settings_update_data data;
                   is_user = (\<lambda>u. doc_get u ''user_id'' = Some (VStr uid));
                   d2 = (if update_data \<noteq> []
                         then d1\<lparr>users := update_one is_user (doc_set_all update_data) (users d1)\<rparr>
                         else d1);
                   updated = map_option (project_out [''_id'', ''password_hash''])
                               (find_one is_user (users d2))
               in (Inr updated, d2)))"

subsection \<open>Store operators on receipts\<close>

text \<open>
  A Python value is falsy when it is \<^verbatim>\<open>None\<close> or the empty string: the handlers
  test their optional string parameters with \<^verbatim>\<open>if section:\<close>.
\<close>

definition truthy :: "string option \<Rightarrow> string option" where
  "truthy p = (case p of None \<Rightarrow> None | Some s \<Rightarrow> if s = [] then None else Some s)"

text \<open>
  The query document the handlers build. Each field is a condition that is present or
  not: equality on \<^verbatim>\<open>section\<close> and \<^verbatim>\<open>category_id\<close>, \<^verbatim>\<open>$regex\<close> with option
  \<^verbatim>\<open>i\<close> on \<^verbatim>\<open>merchant_name\<close>, \<^verbatim>\<open>$gte\<close> and \<^verbatim>\<open>$lte\<close> on \<^verbatim>\<open>date\<close> and
  on \<^verbatim>\<open>total\<close>.
\<close>

record ('a) receipt_query =
  q_user_id :: string
  q_section :: "string option"
  q_category_id :: "string option"
  q_merchant_regex :: "string option"
  q_date_gte :: "string option"
  q_date_lte :: "string option"
  q_total_gte :: "'a option"
  q_total_lte :: "'a option"

definition opt_holds :: "'c option \<Rightarrow> ('c \<Rightarrow> bool) \<Rightarrow> bool" where
  "opt_holds c p = (case c of None \<Rightarrow> True | Some v \<Rightarrow> p v)"

text \<open>
  The store's regular expression engine is an argument \<open>regex\<close>: \<open>regex p\<close> is
  \<open>None\<close> where the store rejects the pattern \<open>p\<close>, and otherwise the test
  ``some part of the subject matches \<open>p\<close>, letter case ignored''. Strings compare
  byte by byte, dates as strings.
\<close>

definition matches ::
  "(string \<Rightarrow> (string \<Rightarrow> bool) option) \<Rightarrow> ('a::linorder) receipt_query \<Rightarrow> 'a receipt \<Rightarrow> bool" where
  "matches regex q r \<longleftrightarrow>
     r_user_id r = q_user_id q \<and>
     opt_holds (q_section q) (\<lambda>s. r_section r = Some s) \<and>
     opt_holds (q_category_id q) (\<lambda>c. r_category_id r = Some c) \<and>
     opt_holds (q_merchant_regex q)
       (\<lambda>p. case regex p of None \<Rightarrow> False | Some m \<Rightarrow> m (merchant_name r)) \<and>
     opt_holds (q_date_gte q) (\<lambda>lo. lo \<le> r_date r) \<and>
     opt_holds (q_date_lte q) (\<lambda>hi. r_date r \<le> hi) \<and>
     opt_holds (q_total_gte q) (\<lambda>lo. lo \<le> r_total r) \<and>
     opt_holds (q_total_lte q) (\<lambda>hi. r_total r \<le> hi)"

definition query_accepted :: "(string \<Rightarrow> (string \<Rightarrow> bool) option) \<Rightarrow> 'a receipt_query \<Rightarrow> bool" where
  "query_accepted regex q = opt_holds (q_merchant_regex q) (\<lambda>p. regex p \<noteq> None)"

text \<open>
  A sort stage, as a stable insertion sort along the relation \<open>precedes\<close>. The store
  does not say how it orders documents with equal keys; the model keeps their storage
  order.
\<close>

fun insort_by :: "('r \<Rightarrow> 'r \<Rightarrow> bool) \<Rightarrow> 'r \<Rightarrow> 'r list \<Rightarrow> 'r list" where
  "insort_by precedes x [] = [x]"
| "insort_by precedes x (y # ys) =
     (if precedes x y then x # y # ys else y # insort_by precedes x ys)"

definition sort_by :: "('r \<Rightarrow> 'r \<Rightarrow> bool) \<Rightarrow> 'r list \<Rightarrow> 'r list" where
  "sort_by precedes rs = foldr (insort_by precedes) rs []"

definition date_desc :: "'a receipt \<Rightarrow> 'a receipt \<Rightarrow> bool" where
  "date_desc a b \<longleftrightarrow> r_date b \<le> r_date a"

text \<open>\<^verbatim>\<open>$sum\<close>, and Python's \<^verbatim>\<open>+=\<close> from \<^verbatim>\<open>0\<close>: additions from the left.\<close>

definition sum_left :: "('a::{plus,zero}) list \<Rightarrow> 'a" where
  "sum_left xs = foldl (+) 0 xs"

text \<open>
  A \<^verbatim>\<open>$group\<close> stage: one group for each value of the key, with the documents that
  have it. The order of the groups is the store's choice; the model emits them in the
  order of their last documents.
\<close>

definition mongo_group :: "('r \<Rightarrow> 'k) \<Rightarrow> 'r list \<Rightarrow> ('k \<times> 'r list) list" where
  "mongo_group key rs = map (\<lambda>k. (k, filter (\<lambda>r. key r = k) rs)) (remdups (map key rs))"

text \<open>
  \<^verbatim>\<open>cat_map = {c["category_id"]: c["name"] for c in cat_docs}\<close> over the categories
  whose id is in \<open>ids\<close>, at most \<open>cap\<close> of them; a later document overrides an
  earlier one with the same id.
\<close>

definition resolve_names :: "nat \<Rightarrow> string list \<Rightarrow> category list \<Rightarrow> (string \<rightharpoonup> string)" where
  "resolve_names cap ids cats =
     map_of (rev (map (\<lambda>c. (c_category_id c, c_name c))
                   (take cap (filter (\<lambda>c. c_category_id c \<in> set ids) cats))))"

definition cat_map_get :: "(string \<rightharpoonup> string) \<Rightarrow> string option \<Rightarrow> string \<Rightarrow> string" where
  "cat_map_get cat_map cid dflt =
     (case cid of
        None \<Rightarrow> dflt
      | Some c \<Rightarrow> (case cat_map c of None \<Rightarrow> dflt | Some n \<Rightarrow> n))"

subsection \<open>Receipt listing\<close>

text \<open>
  \<^verbatim>\<open>GET /receipts\<close> (lines 309 to 346). \<open>skip\<close> and \<open>limit\<close> are \<open>None\<close> when
  the request leaves them out, and then take their defaults 0 and 50. The driver
  raises \<^verbatim>\<open>ValueError\<close> on a negative \<^verbatim>\<open>skip\<close> and on a negative length of
  \<^verbatim>\<open>to_list\<close>, before it sends anything; it raises \<^verbatim>\<open>OverflowError\<close> when it
  encodes a \<^verbatim>\<open>skip\<close> or a \<^verbatim>\<open>limit\<close> beyond 64 bits; a pattern the store rejects
  fails the query. \<^verbatim>\<open>to_list(0)\<close> returns the empty list.
\<close>

record ('a) listing_params =
  p_section :: "string option"
  p_category_id :: "string option"
  p_search :: "string option"
  p_date_from :: "string option"
  p_date_to :: "string option"
  p_amount_min :: "'a option"
  p_amount_max :: "'a option"
  p_skip :: "int option"
  p_limit :: "int option"

record ('a) listing =
  l_receipts :: "'a receipt list"
  l_total :: nat

definition listing_query :: "string \<Rightarrow> 'a listing_params \<Rightarrow> 'a receipt_query" where
  "listing_query uid p =
     \<lparr>q_user_id = uid,
      q_section = truthy (p_section p),
      q_category_id = truthy (p_category_id p),
      q_merchant_regex = truthy (p_search p),
      q_date_gte = truthy (p_date_from p),
      q_date_lte = truthy (p_date_to p),
      q_total_gte = p_amount_min p,
      q_total_lte = p_amount_max p\<rparr>"

definition default_skip :: int where
  "default_skip = 0"

definition default_limit :: int where
  "default_limit = 50"

definition max_int64 :: int where
  "max_int64 = 2 ^ 63 - 1"

definition skip_of :: "'a listing_params \<Rightarrow> int" where
  "skip_of p = (case p_skip p of None \<Rightarrow> default_skip | Some n \<Rightarrow> n)"

definition limit_of :: "'a listing_params \<Rightarrow> int" where
  "limit_of p = (case p_limit p of None \<Rightarrow> default_limit | Some n \<Rightarrow> n)"

definition get_receipts_for ::
  "(string \<Rightarrow> (string \<Rightarrow> bool) option) \<Rightarrow> ('a::linorder) receipt list \<Rightarrow> 'a listing_params
     \<Rightarrow> string \<Rightarrow> error + 'a listing" where
  "get_receipts_for regex rs p uid =
     (let query = listing_query uid p;
          skip = skip_of p;
          limit = limit_of p
      in if skip < 0 \<or> limit < 0 then Inl ValueError
         else if max_int64 < skip \<or> max_int64 < limit then Inl OverflowError
         else if \<not> query_accepted regex query then Inl OperationFailure
         else Inr \<lparr>l_receipts =
                     take (nat limit) (drop (nat skip)
                       (sort_by date_desc (filter (matches regex query) rs))),
                   l_total = length (filter (matches regex query) rs)\<rparr>)"

definition get_receipts ::
  "(string \<Rightarrow> (string \<Rightarrow> bool) option) \<Rightarrow> int \<Rightarrow> ('a::linorder) db \<Rightarrow> string option
     \<Rightarrow> 'a listing_params \<Rightarrow> error + 'a listing" where
  "get_receipts regex now d auth_header p =
     with_user now d auth_header (get_receipts_for regex (receipts d) p)"

subsection \<open>Dates of the dashboard\<close>

text \<open>
  Decimal digits of a number, and \<^verbatim>\<open>strftime("%Y-%m-%d")\<close> on a calendar date:
  the year on at least four digits, month and day on two.
\<close>

fun show_nat :: "nat \<Rightarrow> string" where
  "show_nat n = (if n < 10 then [''0123456789'' ! n] else show_nat (n div 10) @ [''0123456789'' ! (n mod 10)])"

definition zero_pad :: "nat \<Rightarrow> string \<Rightarrow> string" where
  "zero_pad w s = replicate (w - length s) (CHR ''0'') @ s"

record civil_date =
  year :: nat
  month :: nat
  day :: nat

definition strftime_ymd :: "civil_date \<Rightarrow> string" where
  "strftime_ymd t =
     zero_pad 4 (show_nat (year t)) @ ''-'' @ zero_pad 2 (show_nat (month t)) @ ''-'' @
     zero_pad 2 (show_nat (day t))"

subsection \<open>Dashboard\<close>

record ('a) agg =
  a_total :: 'a
  a_tax :: 'a
  a_count :: nat

record ('a) category_group =
  g_id :: "string option"
  g_total :: 'a
  g_count :: nat

record ('a) category_row =
  cr_category_id :: string
  cr_name :: string
  cr_total :: 'a
  cr_count :: nat

record ('a) section_row =
  sr_section :: string
  sr_total :: 'a
  sr_count :: nat

record ('a) recent_row =
  rr_receipt :: "'a receipt"
  rr_category_name :: "string option"

record ('a) dashboard =
  monthly :: "'a agg"
  yearly :: "'a agg"
  dash_sections :: "'a section_row list"
  dash_categories :: "'a category_row list"
  recent_receipts :: "'a recent_row list"

definition in_window :: "string \<Rightarrow> string \<Rightarrow> string \<Rightarrow> 'a receipt \<Rightarrow> bool" where
  "in_window uid lo hi r \<longleftrightarrow> r_user_id r = uid \<and> lo \<le> r_date r \<and> r_date r \<le> hi"

text \<open>
  The window pipeline (lines 485 to 498): \<^verbatim>\<open>$match\<close>, then one group with key
  \<^verbatim>\<open>None\<close>. A \<^verbatim>\<open>$group\<close> stage over no document emits no group;
  \<^verbatim>\<open>to_list(1)\<close> keeps at most one.
\<close>

definition window_pipeline ::
  "string \<Rightarrow> string \<Rightarrow> string \<Rightarrow> ('a::{plus,zero}) receipt list \<Rightarrow> 'a agg list" where
  "window_pipeline uid lo hi rs =
     take 1 (map (\<lambda>(k, g). \<lparr>a_total = sum_left (map r_total g), a_tax = sum_left (map r_tax g),
                               a_count = length g\<rparr>)
               (mongo_group (\<lambda>r. ()) (filter (in_window uid lo hi) rs)))"

text \<open>
  \<^verbatim>\<open>monthly[0] if monthly else {"total": 0, "tax": 0, "count": 0}\<close>, read back with
  \<^verbatim>\<open>.get(key, 0)\<close>.
\<close>

definition window_data :: "('a::zero) agg list \<Rightarrow> 'a agg" where
  "window_data res =
     (case res of [] \<Rightarrow> \<lparr>a_total = 0, a_tax = 0, a_count = 0\<rparr> | x # _ \<Rightarrow> x)"

text \<open>
  The section breakdown (lines 501 to 506): group on \<^verbatim>\<open>section\<close>,
  \<^verbatim>\<open>to_list(10)\<close>, then the groups whose section is truthy, as the entries of a
  dictionary (the sections of the groups are distinct).
\<close>

definition section_pipeline ::
  "string \<Rightarrow> string \<Rightarrow> string \<Rightarrow> ('a::{plus,zero}) receipt list
     \<Rightarrow> (string option \<times> 'a \<times> nat) list" where
  "section_pipeline uid lo hi rs =
     take 10 (map (\<lambda>(k, g). (k, sum_left (map r_total g), length g))
               (mongo_group r_section (filter (in_window uid lo hi) rs)))"

definition section_data :: "(string option \<times> 'a \<times> nat) list \<Rightarrow> 'a section_row list" where
  "section_data sections =
     List.map_filter
       (\<lambda>(k, t, n). case truthy k of
                      None \<Rightarrow> None
                    | Some s \<Rightarrow> Some \<lparr>sr_section = s, sr_total = t, sr_count = n\<rparr>)
       sections"

text \<open>
  The category pipeline (lines 509 to 515): group on \<^verbatim>\<open>category_id\<close>, sort on the
  total, descending, keep ten.
\<close>

definition total_desc :: "('a::linorder) category_group \<Rightarrow> 'a category_group \<Rightarrow> bool" where
  "total_desc a b \<longleftrightarrow> g_total b \<le> g_total a"

definition category_groups ::
  "string \<Rightarrow> string \<Rightarrow> string \<Rightarrow> ('a::{plus,zero}) receipt list \<Rightarrow> 'a category_group list" where
  "category_groups uid lo hi rs =
     map (\<lambda>(k, g). \<lparr>g_id = k, g_total = sum_left (map r_total g), g_count = length g\<rparr>)
       (mongo_group r_category_id (filter (in_window uid lo hi) rs))"

definition category_pipeline ::
  "string \<Rightarrow> string \<Rightarrow> string \<Rightarrow> ('a::{plus,zero,linorder}) receipt list \<Rightarrow> 'a category_group list" where
  "category_pipeline uid lo hi rs =
     take 10 (take 10 (sort_by total_desc (category_groups uid lo hi rs)))"

text \<open>
  Lines 518 to 528: the groups whose id is truthy, with their names.
\<close>

definition category_data :: "category list \<Rightarrow> 'a category_group list \<Rightarrow> 'a category_row list" where
  "category_data cats groups =
     (let cat_ids = List.map_filter (\<lambda>c. truthy (g_id c)) groups;
          cat_map = resolve_names 100 cat_ids cats
      in List.map_filter
           (\<lambda>c. case truthy (g_id c) of
                   None \<Rightarrow> None
                 | Some cid \<Rightarrow>
                     Some \<lparr>cr_category_id = cid,
                           cr_name = cat_map_get cat_map (Some cid) ''Unknown'',
                           cr_total = g_total c, cr_count = g_count c\<rparr>)
           groups)"

text \<open>
  The recent receipts (lines 531 to 543): the user's ten latest by \<^verbatim>\<open>created_at\<close>;
  when one of them has a truthy category, each gets a \<^verbatim>\<open>category_name\<close>, the empty
  string where the category is unknown.
\<close>

definition created_desc :: "'a receipt \<Rightarrow> 'a receipt \<Rightarrow> bool" where
  "created_desc a b \<longleftrightarrow> created_at b \<le> created_at a"

definition recent_data :: "string \<Rightarrow> 'a receipt list \<Rightarrow> category list \<Rightarrow> 'a recent_row list" where
  "recent_data uid rs cats =
     (let recent = take 10 (take 10 (sort_by created_desc (filter (\<lambda>r. r_user_id r = uid) rs)));
          recent_cat_ids = List.map_filter (\<lambda>r. truthy (r_category_id r)) recent
      in if recent_cat_ids \<noteq> [] then
           (let recent_cat_map = resolve_names 100 recent_cat_ids cats
            in map (\<lambda>r. \<lparr>rr_receipt = r,
                          rr_category_name = Some (cat_map_get recent_cat_map (r_category_id r) [])\<rparr>)
                 recent)
         else map (\<lambda>r. \<lparr>rr_receipt = r, rr_category_name = None\<rparr>) recent)"

text \<open>
  \<^verbatim>\<open>GET /dashboard/summary\<close> (lines 474 to 551). \<open>today\<close> is the calendar date of
  \<^verbatim>\<open>datetime.now(timezone.utc)\<close>.
\<close>

definition dashboard_for ::
  "civil_date \<Rightarrow> ('a::{plus,zero,linorder}) receipt list \<Rightarrow> category list \<Rightarrow> string
     \<Rightarrow> error + 'a dashboard" where
  "dashboard_for now rs cats user_id =
     (let month_start = strftime_ymd (now\<lparr>day := 1\<rparr>);
          year_start = strftime_ymd (now\<lparr>month := 1, day := 1\<rparr>);
          today = strftime_ymd now;
          monthly_data = window_data (window_pipeline user_id month_start today rs);
          yearly_data = window_data (window_pipeline user_id year_start today rs);
          sections = section_pipeline user_id year_start today rs;
          cat_groups = category_pipeline user_id year_start today rs
      in Inr \<lparr>monthly = \<lparr>a_total = a_total monthly_data, a_tax = a_tax monthly_data,
                             a_count = a_count monthly_data\<rparr>,
               yearly = \<lparr>a_total = a_total yearly_data, a_tax = a_tax yearly_data,
                            a_count = a_count yearly_data\<rparr>,
               dash_sections = section_data sections,
               dash_categories = category_data cats cat_groups,
               recent_receipts = recent_data user_id rs cats\<rparr>)"

definition get_dashboard_summary ::
  "int \<Rightarrow> civil_date \<Rightarrow> ('a::{plus,zero,linorder}) db \<Rightarrow> string option \<Rightarrow> error + 'a dashboard" where
  "get_dashboard_summary now today d auth_header =
     with_user now d auth_header (dashboard_for today (receipts d) (categories d))"

subsection \<open>Tax summary\<close>

text \<open>
  The query of the two report handlers (lines 563 to 570 and 620 to 627): the user, and
  the date bounds and the section that are truthy.
\<close>

definition report_query :: "string \<Rightarrow> string option \<Rightarrow> string option \<Rightarrow> string option \<Rightarrow> 'a receipt_query" where
  "report_query uid date_from date_to sec =
     \<lparr>q_user_id = uid,
      q_section = truthy sec,
      q_category_id = None,
      q_merchant_regex = None,
      q_date_gte = truthy date_from,
      q_date_lte = truthy date_to,
      q_total_gte = None,
      q_total_lte = None\<rparr>"

definition no_regex :: "string \<Rightarrow> (string \<Rightarrow> bool) option" where
  "no_regex p = None"

record ('a) tax_group =
  tg_section :: "string option"
  tg_category_id :: "string option"
  tg_total :: 'a
  tg_tax :: 'a
  tg_count :: nat

record ('a) tax_row =
  tr_category_id :: "string option"
  tr_category_name :: string
  tr_total :: 'a
  tr_tax :: 'a
  tr_count :: nat

text \<open>
  The response: \<^verbatim>\<open>summary["personal"]\<close>, \<^verbatim>\<open>summary["business"]\<close>,
  \<^verbatim>\<open>totals["personal"]\<close> and \<^verbatim>\<open>totals["business"]\<close>.
\<close>

record ('a) tax_summary =
  summary_personal :: "'a tax_row list"
  summary_business :: "'a tax_row list"
  totals_personal :: "'a agg"
  totals_business :: "'a agg"

text \<open>
  The pipeline (lines 573 to 583): group on the pair of \<^verbatim>\<open>section\<close> and
  \<^verbatim>\<open>category_id\<close>, sort on the section, ascending (null first), then on the total,
  descending; \<^verbatim>\<open>to_list(200)\<close> keeps the first 200 groups.
\<close>

definition tax_groups :: "('a::{plus,zero}) receipt list \<Rightarrow> 'a tax_group list" where
  "tax_groups ms =
     map (\<lambda>(k, g). \<lparr>tg_section = fst k, tg_category_id = snd k,
                      tg_total = sum_left (map r_total g), tg_tax = sum_left (map r_tax g),
                      tg_count = length g\<rparr>)
       (mongo_group (\<lambda>r. (r_section r, r_category_id r)) ms)"

definition tax_before :: "('a::linorder) tax_group \<Rightarrow> 'a tax_group \<Rightarrow> bool" where
  "tax_before a b \<longleftrightarrow>
     tg_section a < tg_section b \<or> (tg_section a = tg_section b \<and> tg_total b \<le> tg_total a)"

definition tax_pipeline :: "('a::{plus,zero,linorder}) receipt list \<Rightarrow> 'a tax_group list" where
  "tax_pipeline ms = take 200 (sort_by tax_before (tax_groups ms))"

text \<open>The loop of lines 592 to 607, one step for each group.\<close>

definition empty_summary :: "('a::zero) tax_summary" where
  "empty_summary =
     \<lparr>summary_personal = [], summary_business = [],
      totals_personal = \<lparr>a_total = 0, a_tax = 0, a_count = 0\<rparr>,
      totals_business = \<lparr>a_total = 0, a_tax = 0, a_count = 0\<rparr>\<rparr>"

definition add_to_totals :: "('a::plus) agg \<Rightarrow> 'a tax_group \<Rightarrow> 'a agg" where
  "add_to_totals t r =
     \<lparr>a_total = a_total t + tg_total r, a_tax = a_tax t + tg_tax r,
      a_count = a_count t + tg_count r\<rparr>"

definition summary_row :: "(string \<rightharpoonup> string) \<Rightarrow> 'a tax_group \<Rightarrow> 'a tax_row" where
  "summary_row cat_map r =
     \<lparr>tr_category_id = tg_category_id r,
      tr_category_name = cat_map_get cat_map (tg_category_id r) ''Unknown'',
      tr_total = tg_total r, tr_tax = tg_tax r, tr_count = tg_count r\<rparr>"

definition summary_step ::
  "(string \<rightharpoonup> string) \<Rightarrow> ('a::plus) tax_summary \<Rightarrow> 'a tax_group \<Rightarrow> 'a tax_summary" where
  "summary_step cat_map acc r =
     (if tg_section r = Some ''personal'' then
        acc\<lparr>summary_personal := summary_personal acc @ [summary_row cat_map r],
            totals_personal := add_to_totals (totals_personal acc) r\<rparr>
      else if tg_section r = Some ''business'' then
        acc\<lparr>summary_business := summary_business acc @ [summary_row cat_map r],
            totals_business := add_to_totals (totals_business acc) r\<rparr>
      else acc)"

definition summarise :: "(string \<rightharpoonup> string) \<Rightarrow> ('a::{plus,zero}) tax_group list \<Rightarrow> 'a tax_summary" where
  "summarise cat_map results = foldl (summary_step cat_map) empty_summary results"

text \<open>\<^verbatim>\<open>GET /reports/tax-summary\<close> (lines 555 to 609).\<close>

definition tax_summary_for ::
  "('a::{plus,zero,linorder}) receipt list \<Rightarrow> category list \<Rightarrow> string option \<Rightarrow> string option
     \<Rightarrow> string option \<Rightarrow> string \<Rightarrow> error + 'a tax_summary" where
  "tax_summary_for rs cats date_from date_to sec uid =
     (let query = report_query uid date_from date_to sec;
          results = tax_pipeline (filter (matches no_regex query) rs);
          cat_ids = List.map_filter (\<lambda>r. truthy (tg_category_id r)) results;
          cat_map = resolve_names 200 cat_ids cats
      in Inr (summarise cat_map results))"

definition get_tax_summary ::
  "int \<Rightarrow> ('a::{plus,zero,linorder}) db \<Rightarrow> string option \<Rightarrow> string option \<Rightarrow> string option
     \<Rightarrow> string option \<Rightarrow> error + 'a tax_summary" where
  "get_tax_summary now d auth_header date_from date_to sec =
     with_user now d auth_header (tax_summary_for (receipts d) (categories d) date_from date_to sec)"

subsection \<open>CSV export\<close>

text \<open>
  Letter case, on ASCII: the model takes bytes outside ASCII as caseless.
  \<^verbatim>\<open>str.title()\<close> puts a letter in upper case when no letter stands before it, and in
  lower case otherwise.
\<close>

definition is_upper :: "char \<Rightarrow> bool" where
  "is_upper c \<longleftrightarrow> CHR ''A'' \<le> c \<and> c \<le> CHR ''Z''"

definition is_lower :: "char \<Rightarrow> bool" where
  "is_lower c \<longleftrightarrow> CHR ''a'' \<le> c \<and> c \<le> CHR ''z''"

definition to_lower :: "char \<Rightarrow> char" where
  "to_lower c = (if is_upper c then char_of (of_char c + (32::nat)) else c)"

definition to_upper :: "char \<Rightarrow> char" where
  "to_upper c = (if is_lower c then char_of (of_char c - (32::nat)) else c)"

fun title_from :: "bool \<Rightarrow> string \<Rightarrow> string" where
  "title_from prev_cased [] = []"
| "title_from prev_cased (c # cs) =
     (if is_upper c \<or> is_lower c
      then (if prev_cased then to_lower c else to_upper c) # title_from True cs
      else c # title_from False cs)"

definition title :: "string \<Rightarrow> string" where
  "title s = title_from False s"

text \<open>
  \<^verbatim>\<open>f"{x:.2f}"\<close>. A finite float is a rational number, and the format rounds its
  exact value to the nearest hundredth, a tie to the even one; the sign is that of
  \<open>x\<close>. (Infinities, NaN and the negative zero are outside the model.)
\<close>

definition round_half_even :: "rat \<Rightarrow> int" where
  "round_half_even q =
     (let f = \<lfloor>q\<rfloor>; d = q - of_int f
      in if d < 1 / 2 then f else if 1 / 2 < d then f + 1 else if even f then f else f + 1)"

definition format_2f :: "rat \<Rightarrow> string" where
  "format_2f x =
     (let n = nat (round_half_even (\<bar>x\<bar> * 100))
      in (if x < 0 then ''-'' else []) @ show_nat (n div 100) @ ''.'' @
         zero_pad 2 (show_nat (n mod 100)))"

definition csv_header :: "string list" where
  "csv_header =
     [''Date'', ''Merchant'', ''Section'', ''Category'', ''Total (CAD)'', ''Tax (CAD)'',
      ''Payment Method'', ''Notes'']"

text \<open>
  One data row (lines 645 to 649). A receipt whose section is null has no
  \<^verbatim>\<open>title\<close>: \<^verbatim>\<open>r.get("section", "")\<close> is \<^verbatim>\<open>None\<close> for it.
\<close>

definition csv_row :: "(string \<rightharpoonup> string) \<Rightarrow> rat receipt \<Rightarrow> error + string list" where
  "csv_row cat_map r =
     (case r_section r of
        None \<Rightarrow> Inl AttributeError
      | Some s \<Rightarrow>
          Inr [r_date r, merchant_name r, title s, cat_map_get cat_map (r_category_id r) [],
               format_2f (r_total r), format_2f (r_tax r), payment_method r, r_notes r])"

fun csv_rows :: "(string \<rightharpoonup> string) \<Rightarrow> rat receipt list \<Rightarrow> error + string list list" where
  "csv_rows cat_map [] = Inr []"
| "csv_rows cat_map (r # rs) =
     (case csv_row cat_map r of
        Inl e \<Rightarrow> Inl e
      | Inr row \<Rightarrow>
          (case csv_rows cat_map rs of Inl e \<Rightarrow> Inl e | Inr rows \<Rightarrow> Inr (row # rows)))"

text \<open>
  \<^verbatim>\<open>GET /reports/export-csv\<close> (lines 612 to 656): the rows handed to the CSV writer,
  the header first.
\<close>

definition export_receipts ::
  "rat receipt list \<Rightarrow> string option \<Rightarrow> string option \<Rightarrow> string option \<Rightarrow> string \<Rightarrow> rat receipt list" where
  "export_receipts rs date_from date_to sec uid =
     take 10000 (sort_by date_desc (filter (matches no_regex (report_query uid date_from date_to sec)) rs))"

definition export_csv_for ::
  "rat receipt list \<Rightarrow> category list \<Rightarrow> string option \<Rightarrow> string option \<Rightarrow> string option \<Rightarrow> string
     \<Rightarrow> error + string list list" where
  "export_csv_for rs cats date_from date_to sec uid =
     (let found = export_receipts rs date_from date_to sec uid;
          cat_ids = List.map_filter (\<lambda>r. truthy (r_category_id r)) found;
          cat_map = resolve_names 500 cat_ids cats
      in case csv_rows cat_map found of
           Inl e \<Rightarrow> Inl e
         | Inr rows \<Rightarrow> Inr (csv_header # rows))"

definition export_csv ::
  "int \<Rightarrow> rat db \<Rightarrow> string option \<Rightarrow> string option \<Rightarrow> string option \<Rightarrow> string option
     \<Rightarrow> error + string list list" where
  "export_csv now d auth_header date_from date_to sec =
     with_user now d auth_header (export_csv_for (receipts d) (categories d) date_from date_to sec)"

subsection \<open>A model of the store's regular expressions\<close>

text \<open>
  The store matches \<^verbatim>\<open>$regex\<close> patterns with a PCRE engine. \<open>simple_regex\<close> is that
  engine, with option \<^verbatim>\<open>i\<close>, on the patterns made of ordinary characters and the
  metacharacter dot: an ordinary character matches itself in either case, a dot matches
  any character but a line feed, and the pattern matches a subject when it matches at
  some position of it. For a pattern with any other metacharacter this model has no
  answer and gives \<open>None\<close>; nothing below applies it to one.
\<close>

definition regex_meta :: "char list" where
  "regex_meta = [CHR 0x5C, CHR ''^'', CHR ''$'', CHR ''.'', CHR ''|'', CHR ''?'', CHR ''*'',
                 CHR ''+'', CHR ''('', CHR '')'', CHR ''['', CHR '']'', CHR ''{'', CHR ''}'']"

definition rx_char :: "char \<Rightarrow> char \<Rightarrow> bool" where
  "rx_char p c = (if p = CHR ''.'' then c \<noteq> CHR 0x0A else to_lower p = to_lower c)"

fun rx_here :: "string \<Rightarrow> string \<Rightarrow> bool" where
  "rx_here [] s = True"
| "rx_here (p # ps) [] = False"
| "rx_here (p # ps) (c # cs) = (rx_char p c \<and> rx_here ps cs)"

fun rx_search :: "string \<Rightarrow> string \<Rightarrow> bool" where
  "rx_search p [] = rx_here p []"
| "rx_search p (c # cs) = (rx_here p (c # cs) \<or> rx_search p cs)"

definition simple_regex :: "string \<Rightarrow> (string \<Rightarrow> bool) option" where
  "simple_regex p =
     (if list_all (\<lambda>c. c = CHR ''.'' \<or> c \<notin> set regex_meta) p then Some (rx_search p) else None)"

subsection \<open>Notions of the specification\<close>

text \<open>
  The instant a stored expiry stands for, a datetime without a zone being read as UTC.
\<close>

definition expiry_instant :: "datetime \<Rightarrow> int" where
  "expiry_instant t = (case tzinfo t of None \<Rightarrow> wall t | Some off \<Rightarrow> wall t - off)"

text \<open>
  \<open>s\<close> occurs in \<open>m\<close> as a literal substring, letter case ignored.
\<close>

definition icontains :: "string \<Rightarrow> string \<Rightarrow> bool" where
  "icontains s m \<longleftrightarrow> sublist (map to_lower s) (map to_lower m)"

text \<open>
  The search the specification describes, as an engine of its own: every string is
  accepted and stands for itself.
\<close>

definition literal_search :: "string \<Rightarrow> (string \<Rightarrow> bool) option" where
  "literal_search s = Some (icontains s)"

text \<open>
  A receipt satisfies the filters of a listing request: it is the user's, and it meets
  each filter the request gives. A string filter is given when it is present and not
  empty; the date and amount ranges include their bounds.
\<close>

definition satisfies ::
  "(string \<Rightarrow> (string \<Rightarrow> bool) option) \<Rightarrow> string \<Rightarrow> ('a::linorder) listing_params
     \<Rightarrow> 'a receipt \<Rightarrow> bool" where
  "satisfies regex uid p r \<longleftrightarrow>
     r_user_id r = uid \<and>
     (case p_section p of None \<Rightarrow> True | Some s \<Rightarrow> s = [] \<or> r_section r = Some s) \<and>
     (case p_category_id p of None \<Rightarrow> True | Some c \<Rightarrow> c = [] \<or> r_category_id r = Some c) \<and>
     (case p_search p of
        None \<Rightarrow> True
      | Some s \<Rightarrow> s = [] \<or> (case regex s of None \<Rightarrow> False | Some m \<Rightarrow> m (merchant_name r))) \<and>
     (case p_date_from p of None \<Rightarrow> True | Some lo \<Rightarrow> lo = [] \<or> lo \<le> r_date r) \<and>
     (case p_date_to p of None \<Rightarrow> True | Some hi \<Rightarrow> hi = [] \<or> r_date r \<le> hi) \<and>
     (case p_amount_min p of None \<Rightarrow> True | Some lo \<Rightarrow> lo \<le> r_total r) \<and>
     (case p_amount_max p of None \<Rightarrow> True | Some hi \<Rightarrow> r_total r \<le> hi)"

subsection \<open>A store for the examples\<close>

definition tim :: "rat receipt" where
  "tim =
     \<lparr>receipt_id = ''rcpt_1'', r_user_id = ''user_1'', merchant_name = ''Tim Hortons'',
      r_date = ''2026-01-15'', r_total = 7036170730324623 / 70368744177664,
      r_tax = 7312719894942843 / 562949953421312, payment_method = ''Visa'',
      r_section = Some ''personal'', r_category_id = Some ''cat_food'',
      r_notes = ''Test receipt'', created_at = ''2026-01-15T10:00:00+00:00''\<rparr>"

definition staples :: "rat receipt" where
  "staples =
     \<lparr>receipt_id = ''rcpt_2'', r_user_id = ''user_1'', merchant_name = ''Staples'',
      r_date = ''2026-02-03'', r_total = 50, r_tax = 13 / 2, payment_method = ''Cash'',
      r_section = Some ''business'', r_category_id = Some ''cat_office'', r_notes = [],
      created_at = ''2026-02-03T18:30:00+00:00''\<rparr>"

definition uber :: "rat receipt" where
  "uber =
     \<lparr>receipt_id = ''rcpt_3'', r_user_id = ''user_1'', merchant_name = ''Uber'',
      r_date = ''2025-12-30'', r_total = 20, r_tax = 1, payment_method = ''Visa'',
      r_section = None, r_category_id = None, r_notes = [],
      created_at = ''2025-12-30T23:10:00+00:00''\<rparr>"

definition gift :: "rat receipt" where
  "gift =
     \<lparr>receipt_id = ''rcpt_4'', r_user_id = ''user_1'', merchant_name = ''Gift Shop'',
      r_date = ''2026-02-10'', r_total = 30, r_tax = 3, payment_method = ''Debit'',
      r_section = Some ''other'', r_category_id = Some ''cat_food'', r_notes = [],
      created_at = ''2026-02-10T12:00:00+00:00''\<rparr>"

definition foreign_receipt :: "rat receipt" where
  "foreign_receipt =
     \<lparr>receipt_id = ''rcpt_5'', r_user_id = ''user_2'', merchant_name = ''Tim Hortons'',
      r_date = ''2026-01-20'', r_total = 8, r_tax = 1, payment_method = ''Cash'',
      r_section = Some ''personal'', r_category_id = Some ''cat_food'', r_notes = [],
      created_at = ''2026-01-20T08:00:00+00:00''\<rparr>"

definition example_db :: "rat db" where
  "example_db =
     \<lparr>user_sessions =
        [\<lparr>session_token = ''sess_a'', s_user_id = ''user_1'',
          expires_at = ExpDatetime \<lparr>wall = 1000, tzinfo = None\<rparr>\<rparr>],
      users =
        [[(''_id'', VInt 7), (''user_id'', VStr ''user_1''), (''email'', VStr ''a@b.ca''),
          (''password_hash'', VStr ''$2b$12$abc''), (''currency'', VStr ''CAD'')]],
      receipts = [tim, staples, uber, gift, foreign_receipt],
      categories =
        [\<lparr>c_category_id = ''cat_food'', c_name = ''Food & Dining''\<rparr>,
         \<lparr>c_category_id = ''cat_office'', c_name = ''Office Supplies''\<rparr>]\<rparr>"





text \<open>
  A third user, with 201 business receipts, each in a category of its own: the
  categories \<open>x\<close>, \<open>xx\<close>, \<open>xxx\<close> and so on.
\<close>

definition nth_receipt :: "nat \<Rightarrow> rat receipt" where
  "nth_receipt n =
     \<lparr>receipt_id = ''rcpt_'' @ show_nat n, r_user_id = ''user_3'', merchant_name = ''Shop'',
      r_date = ''2026-02-01'', r_total = 1, r_tax = 0, payment_method = ''Cash'',
      r_section = Some ''business'', r_category_id = Some (replicate (Suc n) (CHR ''x'')),
      r_notes = [], created_at = ''2026-02-01T12:00:00+00:00''\<rparr>"

definition busy_db :: "rat db" where
  "busy_db =
     \<lparr>user_sessions =
        [\<lparr>session_token = ''sess_c'', s_user_id = ''user_3'',
          expires_at = ExpDatetime \<lparr>wall = 1000, tzinfo = None\<rparr>\<rparr>],
      users = [[(''_id'', VInt 9), (''user_id'', VStr ''user_3''), (''email'', VStr ''e@f.ca'')]],
      receipts = map nth_receipt [0..<201],
      categories = []\<rparr>"

definition no_filters :: "rat listing_params" where
  "no_filters =
     \<lparr>p_section = None, p_category_id = None, p_search = None, p_date_from = None,
      p_date_to = None, p_amount_min = None, p_amount_max = None, p_skip = None,
      p_limit = None\<rparr>"

section \<open>Properties\<close>

subsection \<open>The example store\<close>

lemma example_user: "current_user_id 1000 example_db (Some ''Bearer sess_a'') = Inr ''user_1''"
  by (simp add: current_user_id_def get_current_user_def example_db_def startswith_def
      bearer_token_def py_split_def find_one_def resolve_expiry_def dt_less_def as_utc_def
      now_utc_def find_user_def doc_get_def project_out_def user_id_of_def)

lemma example_receipts: "receipts example_db = [tim, staples, uber, gift, foreign_receipt]"
  by (simp add: example_db_def)

lemma example_categories:
  "categories example_db =
     [\<lparr>c_category_id = ''cat_food'', c_name = ''Food & Dining''\<rparr>,
      \<lparr>c_category_id = ''cat_office'', c_name = ''Office Supplies''\<rparr>]"
  by (simp add: example_db_def)

subsection \<open>The authorization gate\<close>

lemma dt_less_as_utc: "dt_less (as_utc t) (now_utc now) = Inr (expiry_instant t < now)"
  by (simp add: dt_less_def as_utc_def now_utc_def expiry_instant_def split: option.splits)

lemma split_aux_nonempty: "split_aux sep k acc s \<noteq> []"
  by (induction sep k acc s rule: split_aux.induct) auto

lemma py_split_prefix:
  assumes "prefix sep s" "sep \<noteq> []"
  shows "\<exists>y ys. py_split sep s = [] # y # ys"
proof -
  from assms obtain c cs where s: "s = c # cs" by (cases s) auto
  obtain y ys where "split_aux sep (length sep - 1) [] cs = y # ys"
    using split_aux_nonempty by (cases "split_aux sep (length sep - 1) [] cs") auto
  with assms(1) s show ?thesis by (simp add: py_split_def)
qed

text \<open>A header that starts with \<^verbatim>\<open>Bearer \<close> always yields a token: no \<^verbatim>\<open>IndexError\<close>.\<close>

lemma bearer_token_total:
  assumes "startswith h ''Bearer ''"
  shows "\<exists>t. bearer_token h = Inr t"
proof -
  have "prefix ''Bearer '' h" using assms by (simp add: startswith_def)
  from py_split_prefix[OF this] obtain y ys where "py_split ''Bearer '' h = [] # y # ys"
    by blast
  then show ?thesis by (simp add: bearer_token_def)
qed

lemma find_one_Some: "find_one p ds = Some x \<Longrightarrow> p x \<and> x \<in> set ds"
  by (auto simp: find_one_def find_Some_iff)

text \<open>The document found for a user id holds that id, so it is never empty.\<close>

lemma find_user_nonempty: "find_user uid us \<noteq> Some []"
proof
  assume a: "find_user uid us = Some []"
  then obtain u where u: "find_one (\<lambda>d. doc_get d ''user_id'' = Some (VStr uid)) us = Some u"
    and p: "project_out [''_id''] u = []"
    by (auto simp: find_user_def)
  from find_one_Some[OF u] have "map_of u ''user_id'' = Some (VStr uid)"
    by (simp add: doc_get_def)
  then have "(''user_id'', VStr uid) \<in> set u" by (rule map_of_SomeD)
  then have "(''user_id'', VStr uid) \<in> set (project_out [''_id''] u)"
    by (simp add: project_out_def)
  with p show False by simp
qed

lemma find_user_has_id:
  assumes "find_user uid us = Some user"
  shows "doc_get user ''user_id'' = Some (VStr uid)"
proof -
  from assms obtain u where u: "find_one (\<lambda>d. doc_get d ''user_id'' = Some (VStr uid)) us = Some u"
    and p: "user = project_out [''_id''] u"
    by (auto simp: find_user_def)
  have "map_of (filter (\<lambda>(k, v). k \<noteq> ''_id'') u) ''user_id'' = map_of u ''user_id''"
    by (induction u) auto
  with find_one_Some[OF u] p show ?thesis by (simp add: doc_get_def project_out_def)
qed

text \<open>
  C1, as the code has it, on every path of \<^verbatim>\<open>get_current_user\<close>. The store comes
  back as it was, whatever the request. The answer is 401 when the header is missing or
  does not start with \<^verbatim>\<open>Bearer \<close>, when the token is not in the session store, when
  the session's expiry (a datetime without a zone read as UTC) is strictly before the
  current instant, and when the expiry is not before the current instant and the
  session's user is gone. A stored expiry that is a string and no ISO timestamp gives
  \<^verbatim>\<open>ValueError\<close>, not 401. In the one remaining case, with the expiry at the current
  instant or after it and the user in the store, the gate returns the user document
  without its \<^verbatim>\<open>password_hash\<close>. The comparison is strict: the claim's ``less than or
  equal'' fails at the instant of expiry itself.
\<close>

theorem get_current_user_paths:
  "snd (get_current_user now d auth_header) = d \<and>
   (case auth_header of
      None \<Rightarrow>
        fst (get_current_user now d auth_header) = Inl (HTTPException 401 ''Not authenticated'')
    | Some h \<Rightarrow>
        if \<not> startswith h ''Bearer '' then
          fst (get_current_user now d auth_header) = Inl (HTTPException 401 ''Not authenticated'')
        else
          (\<exists>token. bearer_token h = Inr token \<and>
             (case find_one (\<lambda>s. session_token s = token) (user_sessions d) of
                None \<Rightarrow>
                  fst (get_current_user now d auth_header) =
                    Inl (HTTPException 401 ''Invalid session'')
              | Some sess \<Rightarrow>
                  (case resolve_expiry (expires_at sess) of
                     Inl e \<Rightarrow> fst (get_current_user now d auth_header) = Inl ValueError
                   | Inr t \<Rightarrow>
                       if expiry_instant t < now then
                         fst (get_current_user now d auth_header) =
                           Inl (HTTPException 401 ''Session expired'')
                       else
                         (case find_user (s_user_id sess) (users d) of
                            None \<Rightarrow>
                              fst (get_current_user now d auth_header) =
                                Inl (HTTPException 401 ''User not found'')
                          | Some user \<Rightarrow>
                              fst (get_current_user now d auth_header) =
                                Inr (filter (\<lambda>(k, v). k \<noteq> ''password_hash'') user))))))"
proof (cases auth_header)
  case None
  then show ?thesis by (simp add: get_current_user_def)
next
  case (Some h)
  show ?thesis
  proof (cases "startswith h ''Bearer ''")
    case False
    with Some show ?thesis by (simp add: get_current_user_def)
  next
    case True
    from bearer_token_total[OF True] obtain token where t: "bearer_token h = Inr token" by blast
    have ne: "h \<noteq> []" using True by (auto simp: startswith_def)
    have rs: "\<And>s e. resolve_expiry s = Inl e \<Longrightarrow> e = ValueError"
      by (auto simp: resolve_expiry_def split: expires_val.splits option.splits)
    show ?thesis
      using Some t ne True find_user_nonempty[of _ "users d"]
      by (auto simp: get_current_user_def dt_less_as_utc split: option.splits sum.splits dest: rs)
  qed
qed

theorem get_current_user_paths_witness:
  "fst (get_current_user 1001 example_db (Some ''Bearer sess_a'')) =
     Inl (HTTPException 401 ''Session expired'') \<and>
   snd (get_current_user 1001 example_db (Some ''Bearer sess_a'')) = example_db \<and>
   fst (get_current_user 1000 example_db None) = Inl (HTTPException 401 ''Not authenticated'') \<and>
   snd (get_current_user 1000 example_db None) = example_db"
proof -
  have h: "startswith ''Bearer sess_a'' ''Bearer ''" by (simp add: startswith_def)
  have b: "bearer_token ''Bearer sess_a'' = Inr ''sess_a''"
    by (simp add: bearer_token_def py_split_def)
  have f: "find_one (\<lambda>s. session_token s = ''sess_a'') (user_sessions example_db) =
             Some \<lparr>session_token = ''sess_a'', s_user_id = ''user_1'',
                   expires_at = ExpDatetime \<lparr>wall = 1000, tzinfo = None\<rparr>\<rparr>"
    by (simp add: find_one_def example_db_def)
  have "fst (get_current_user 1001 example_db (Some ''Bearer sess_a'')) =
     Inl (HTTPException 401 ''Session expired'') \<and>
   snd (get_current_user 1001 example_db (Some ''Bearer sess_a'')) = example_db"
    using h get_current_user_paths[of 1001 example_db "Some ''Bearer sess_a''"] b f
    by (simp add: resolve_expiry_def expiry_instant_def)
  moreover have "fst (get_current_user 1000 example_db None) =
       Inl (HTTPException 401 ''Not authenticated'') \<and>
     snd (get_current_user 1000 example_db None) = example_db"
    using get_current_user_paths[of 1000 example_db None] by simp
  ultimately show ?thesis by blast
qed

text \<open>
  C1 as stated fails: the session of the example store expires at the instant 1000, and
  at the instant 1000 the gate still returns its user.
\<close>

theorem expiry_at_now_counterexample:
  "expires_at (hd (user_sessions example_db)) = ExpDatetime \<lparr>wall = 1000, tzinfo = None\<rparr> \<and>
   expiry_instant \<lparr>wall = 1000, tzinfo = None\<rparr> = 1000 \<and>
   fst (get_current_user 1000 example_db (Some ''Bearer sess_a'')) =
     Inr [(''user_id'', VStr ''user_1''), (''email'', VStr ''a@b.ca''),
          (''currency'', VStr ''CAD'')]"
  by (simp add: get_current_user_def example_db_def startswith_def bearer_token_def
      py_split_def find_one_def resolve_expiry_def dt_less_def as_utc_def now_utc_def
      find_user_def doc_get_def project_out_def expiry_instant_def)

subsection \<open>The password hash\<close>

lemma doc_get_without:
  "k \<noteq> k0 \<Longrightarrow> doc_get (filter (\<lambda>(k', v). k' \<noteq> k0) u) k = doc_get u k"
  by (induction u) (auto simp: doc_get_def)

lemma doc_get_doc_set: "doc_get (doc_set k v d) k' = (if k' = k then Some v else doc_get d k')"
  by (induction d) (auto simp: doc_get_def)

lemma doc_get_doc_set_all:
  "k \<notin> fst ` set upd \<Longrightarrow> doc_get (doc_set_all upd d) k = doc_get d k"
  unfolding doc_set_all_def
  by (induction upd arbitrary: d) (auto simp: doc_get_doc_set)

lemma find_one_update_one:
  "(\<And>x. p x \<Longrightarrow> p (f x)) \<Longrightarrow> find_one p (update_one p f xs) = map_option f (find_one p xs)"
  by (induction xs) (auto simp: find_one_def)

lemma settings_update_keys: "''user_id'' \<notin> fst ` set (settings_update_data data)"
  by (auto simp: settings_update_data_def split: option.splits)

lemma project_out_keys: "k \<in> set ks \<Longrightarrow> k \<notin> fst ` set (project_out ks u)"
  by (auto simp: project_out_def)

text \<open>What the gate returns is a stored user document less its two private fields.\<close>

lemma get_current_user_Inr:
  assumes "fst (get_current_user now d auth_header) = Inr user"
  shows "\<exists>uid stored. find_user uid (users d) = Some stored \<and>
           user = filter (\<lambda>(k, v). k \<noteq> ''password_hash'') stored"
  using assms
  by (auto simp: get_current_user_def split: option.splits sum.splits if_splits)

lemma user_id_of_gate:
  assumes "find_user uid us = Some stored"
  shows "user_id_of (filter (\<lambda>(k, v). k \<noteq> ''password_hash'') stored) = Inr uid"
  using find_user_has_id[OF assms] by (simp add: user_id_of_def doc_get_without)

lemma find_user_find_one:
  "find_user uid us = Some stored \<Longrightarrow>
     \<exists>u. find_one (\<lambda>u. doc_get u ''user_id'' = Some (VStr uid)) us = Some u"
  by (auto simp: find_user_def)

text \<open>
  C8. Whenever the gate lets a request through, the user document it returns has no
  \<^verbatim>\<open>password_hash\<close> field; \<^verbatim>\<open>GET /auth/me\<close> answers with that same document; and
  \<^verbatim>\<open>PUT /settings\<close>, whatever the update, answers with a user document, which has no
  \<^verbatim>\<open>password_hash\<close> field either.
\<close>

theorem password_hash_never_returned:
  "\<forall>user. fst (get_current_user now d auth_header) = Inr user \<longrightarrow>
      ''password_hash'' \<notin> fst ` set user \<and>
      fst (get_me now d auth_header) = Inr user \<and>
      (\<exists>updated. fst (update_settings now d auth_header data) = Inr (Some updated) \<and>
                 ''password_hash'' \<notin> fst ` set updated)"
proof (intro conjI allI impI)
  fix user assume a: "fst (get_current_user now d auth_header) = Inr user"
  from get_current_user_Inr[OF a] obtain uid stored where
    s: "find_user uid (users d) = Some stored" and
    u: "user = filter (\<lambda>(k, v). k \<noteq> ''password_hash'') stored" by blast
  show "''password_hash'' \<notin> fst ` set user" using u by auto
  show "fst (get_me now d auth_header) = Inr user" using a by (simp add: get_me_def)
  have uid: "user_id_of user = Inr uid" using user_id_of_gate[OF s] u by simp
  from find_user_find_one[OF s] obtain raw where
    raw: "find_one (\<lambda>u. doc_get u ''user_id'' = Some (VStr uid)) (users d) = Some raw" by blast
  have sn: "snd (get_current_user now d auth_header) = d"
    by (auto simp: get_current_user_def split: option.splits sum.splits)
  have keep: "\<And>x. doc_get x ''user_id'' = Some (VStr uid) \<Longrightarrow>
      doc_get (doc_set_all (settings_update_data data) x) ''user_id'' = Some (VStr uid)"
    by (simp add: doc_get_doc_set_all[OF settings_update_keys])
  have upd: "find_one (\<lambda>u. doc_get u ''user_id'' = Some (VStr uid))
      (update_one (\<lambda>u. doc_get u ''user_id'' = Some (VStr uid))
         (doc_set_all (settings_update_data data)) (users d)) =
      Some (doc_set_all (settings_update_data data) raw)"
    using find_one_update_one[of "\<lambda>u. doc_get u ''user_id'' = Some (VStr uid)"
        "doc_set_all (settings_update_data data)" "users d"] keep raw by simp
  have "fst (update_settings now d auth_header data) =
      Inr (Some (project_out [''_id'', ''password_hash'']
        (if settings_update_data data \<noteq> [] then doc_set_all (settings_update_data data) raw else raw)))"
    using a sn uid raw upd
    by (cases "get_current_user now d auth_header") (auto simp: update_settings_def Let_def)
  then show "\<exists>updated. fst (update_settings now d auth_header data) = Inr (Some updated) \<and>
                  ''password_hash'' \<notin> fst ` set updated"
    using project_out_keys[of "''password_hash''" "[''_id'', ''password_hash'']"] by auto
qed

text \<open>
  On the example store: the user document has a \<^verbatim>\<open>password_hash\<close>, and none of the
  three answers has one.
\<close>

theorem password_hash_never_returned_witness:
  "fst (get_current_user 1000 example_db (Some ''Bearer sess_a'')) =
     Inr [(''user_id'', VStr ''user_1''), (''email'', VStr ''a@b.ca''),
          (''currency'', VStr ''CAD'')] \<and>
   ''password_hash'' \<notin>
     fst ` set [(''user_id'', VStr ''user_1''), (''email'', VStr ''a@b.ca''),
                (''currency'', VStr ''CAD'')] \<and>
   fst (get_me 1000 example_db (Some ''Bearer sess_a'')) =
     Inr [(''user_id'', VStr ''user_1''), (''email'', VStr ''a@b.ca''),
          (''currency'', VStr ''CAD'')] \<and>
   (\<exists>updated.
      fst (update_settings 1000 example_db (Some ''Bearer sess_a'')
             \<lparr>currency = Some ''USD'', theme = None\<rparr>) = Inr (Some updated) \<and>
      ''password_hash'' \<notin> fst ` set updated)"
proof -
  have g: "fst (get_current_user 1000 example_db (Some ''Bearer sess_a'')) =
     Inr [(''user_id'', VStr ''user_1''), (''email'', VStr ''a@b.ca''),
          (''currency'', VStr ''CAD'')]"
    by code_simp
  from password_hash_never_returned[rule_format, OF g] g show ?thesis by blast
qed

subsection \<open>Sorting and grouping\<close>

lemma mset_insort_by: "mset (insort_by le x ys) = add_mset x (mset ys)"
  by (induction ys) auto

lemma mset_sort_by: "mset (sort_by le xs) = mset xs"
  unfolding sort_by_def by (induction xs) (auto simp: mset_insort_by)

lemma set_sort_by: "set (sort_by le xs) = set xs"
  using mset_sort_by[of le xs] by (metis set_mset_mset)


lemma set_insort_by: "set (insort_by le x ys) = insert x (set ys)"
  using mset_insort_by[of le x ys] by (metis set_mset_mset set_mset_add_mset_insert)

lemma sorted_insort_by:
  assumes tot: "\<And>a b. le a b \<or> le b a" and tr: "\<And>a b c. le a b \<Longrightarrow> le b c \<Longrightarrow> le a c"
  shows "sorted_wrt le ys \<Longrightarrow> sorted_wrt le (insort_by le x ys)"
proof (induction ys)
  case Nil
  then show ?case by simp
next
  case (Cons y ys)
  show ?case
  proof (cases "le x y")
    case True
    with Cons.prems tr show ?thesis by auto
  next
    case False
    with tot have "le y x" by blast
    with Cons False show ?thesis by (auto simp: set_insort_by)
  qed
qed

lemma sorted_sort_by:
  assumes "\<And>a b. le a b \<or> le b a" and "\<And>a b c. le a b \<Longrightarrow> le b c \<Longrightarrow> le a c"
  shows "sorted_wrt le (sort_by le xs)"
  unfolding sort_by_def
  by (induction xs) (auto intro: sorted_insort_by[OF assms])

lemma sorted_date_desc: "sorted_wrt date_desc (sort_by date_desc xs)"
  by (rule sorted_sort_by) (auto simp: date_desc_def)


lemma sorted_tax_before: "sorted_wrt tax_before (sort_by tax_before xs)"
  by (rule sorted_sort_by) (auto simp: tax_before_def)

subsection \<open>Receipt listing\<close>

lemma matches_listing_query:
  "matches regex (listing_query uid p) r \<longleftrightarrow> satisfies regex uid p r"
  by (auto simp: matches_def listing_query_def satisfies_def opt_holds_def truthy_def
      split: option.splits)

lemma matches_listing_query_fun:
  "matches regex (listing_query uid p) = satisfies regex uid p"
  by (rule ext) (rule matches_listing_query)

lemma query_accepted_listing:
  "query_accepted regex (listing_query uid p) \<longleftrightarrow>
     (case p_search p of None \<Rightarrow> True | Some s \<Rightarrow> s = [] \<or> regex s \<noteq> None)"
  by (auto simp: query_accepted_def listing_query_def opt_holds_def truthy_def split: option.splits)

lemma satisfies_paging [simp]:
  "satisfies regex uid (p\<lparr>p_skip := sk, p_limit := lm\<rparr>) = satisfies regex uid p"
  by (rule ext) (simp add: satisfies_def)

lemma get_receipts_Inr:
  assumes "current_user_id now d auth_header = Inr uid"
    and "get_receipts regex now d auth_header p = Inr res"
  shows "res = \<lparr>l_receipts = take (nat (limit_of p)) (drop (nat (skip_of p))
                   (sort_by date_desc (filter (satisfies regex uid p) (receipts d)))),
                l_total = length (filter (satisfies regex uid p) (receipts d))\<rparr>"
  using assms
  by (auto simp: get_receipts_def with_user_def get_receipts_for_def Let_def
      matches_listing_query_fun split: if_splits)

text \<open>
  C3, as the code has it, for a request that passes the gate as the user \<open>uid\<close>. The
  listing answers exactly when \<^verbatim>\<open>skip\<close> and \<^verbatim>\<open>limit\<close> (0 and 50 when left out) are
  between 0 and \<open>2\<^sup>6\<^sup>3 - 1\<close> and the store accepts the search pattern. Every receipt of
  the page is a stored receipt that satisfies the filters (with a section filter, it has
  that section); the page is in descending order of date, has at most \<^verbatim>\<open>limit\<close> receipts,
  and is the slice from \<^verbatim>\<open>skip\<close> of length \<^verbatim>\<open>limit\<close> of one ordering of all the receipts
  that satisfy the filters, itself in descending order of date; \<^verbatim>\<open>total\<close> is the number of
  all these receipts, the same for every other \<^verbatim>\<open>skip\<close> and \<^verbatim>\<open>limit\<close> that gets an
  answer.
\<close>

theorem get_receipts_page:
  assumes "current_user_id now d auth_header = Inr uid"
  shows
    "((\<exists>res. get_receipts regex now d auth_header p = Inr res) \<longleftrightarrow>
        0 \<le> skip_of p \<and> skip_of p \<le> 2 ^ 63 - 1 \<and> 0 \<le> limit_of p \<and> limit_of p \<le> 2 ^ 63 - 1 \<and>
        (case p_search p of None \<Rightarrow> True | Some s \<Rightarrow> s = [] \<or> regex s \<noteq> None)) \<and>
     (p_skip p = None \<longrightarrow> skip_of p = 0) \<and>
     (p_limit p = None \<longrightarrow> limit_of p = 50) \<and>
     (\<forall>res. get_receipts regex now d auth_header p = Inr res \<longrightarrow>
        (\<forall>r \<in> set (l_receipts res). r \<in> set (receipts d) \<and> satisfies regex uid p r) \<and>
        (\<forall>s. p_section p = Some s \<and> s \<noteq> [] \<longrightarrow>
           (\<forall>r \<in> set (l_receipts res). r_section r = Some s)) \<and>
        sorted_wrt (\<lambda>a b. r_date b \<le> r_date a) (l_receipts res) \<and>
        length (l_receipts res) \<le> nat (limit_of p) \<and>
        l_receipts res =
          take (nat (limit_of p)) (drop (nat (skip_of p))
            (sort_by date_desc (filter (satisfies regex uid p) (receipts d)))) \<and>
        mset (sort_by date_desc (filter (satisfies regex uid p) (receipts d))) =
          mset (filter (satisfies regex uid p) (receipts d)) \<and>
        sorted_wrt (\<lambda>a b. r_date b \<le> r_date a)
          (sort_by date_desc (filter (satisfies regex uid p) (receipts d))) \<and>
        l_total res = length (filter (satisfies regex uid p) (receipts d)) \<and>
        (\<forall>sk lm res'.
           get_receipts regex now d auth_header (p\<lparr>p_skip := sk, p_limit := lm\<rparr>) = Inr res' \<longrightarrow>
           l_total res' = l_total res))"
proof -
  have srt: "\<And>xs::'a receipt list. sorted_wrt (\<lambda>a b. r_date b \<le> r_date a) (sort_by date_desc xs)"
    using sorted_date_desc by (simp add: date_desc_def[abs_def])
  have served: "(\<exists>res. get_receipts regex now d auth_header p = Inr res) \<longleftrightarrow>
        0 \<le> skip_of p \<and> skip_of p \<le> 2 ^ 63 - 1 \<and> 0 \<le> limit_of p \<and> limit_of p \<le> 2 ^ 63 - 1 \<and>
        (case p_search p of None \<Rightarrow> True | Some s \<Rightarrow> s = [] \<or> regex s \<noteq> None)"
    using assms
    by (auto simp: get_receipts_def with_user_def get_receipts_for_def Let_def max_int64_def
        query_accepted_listing)
  have dflt: "(p_skip p = None \<longrightarrow> skip_of p = 0) \<and> (p_limit p = None \<longrightarrow> limit_of p = 50)"
    by (simp add: skip_of_def limit_of_def default_skip_def default_limit_def)
  have page: "\<forall>res. get_receipts regex now d auth_header p = Inr res \<longrightarrow>
        (\<forall>r \<in> set (l_receipts res). r \<in> set (receipts d) \<and> satisfies regex uid p r) \<and>
        (\<forall>s. p_section p = Some s \<and> s \<noteq> [] \<longrightarrow>
           (\<forall>r \<in> set (l_receipts res). r_section r = Some s)) \<and>
        sorted_wrt (\<lambda>a b. r_date b \<le> r_date a) (l_receipts res) \<and>
        length (l_receipts res) \<le> nat (limit_of p) \<and>
        l_receipts res =
          take (nat (limit_of p)) (drop (nat (skip_of p))
            (sort_by date_desc (filter (satisfies regex uid p) (receipts d)))) \<and>
        mset (sort_by date_desc (filter (satisfies regex uid p) (receipts d))) =
          mset (filter (satisfies regex uid p) (receipts d)) \<and>
        sorted_wrt (\<lambda>a b. r_date b \<le> r_date a)
          (sort_by date_desc (filter (satisfies regex uid p) (receipts d))) \<and>
        l_total res = length (filter (satisfies regex uid p) (receipts d)) \<and>
        (\<forall>sk lm res'.
           get_receipts regex now d auth_header (p\<lparr>p_skip := sk, p_limit := lm\<rparr>) = Inr res' \<longrightarrow>
           l_total res' = l_total res)"
  proof (intro allI impI)
    fix res assume r: "get_receipts regex now d auth_header p = Inr res"
    let ?ms = "filter (satisfies regex uid p) (receipts d)"
    let ?page = "take (nat (limit_of p)) (drop (nat (skip_of p)) (sort_by date_desc ?ms))"
    from get_receipts_Inr[OF assms r] have pg: "l_receipts res = ?page"
      and tot: "l_total res = length ?ms" by simp_all
    have sub: "set ?page \<subseteq> set ?ms"
      using set_take_subset set_drop_subset set_sort_by by fast
    have mem: "\<forall>r \<in> set (l_receipts res). r \<in> set (receipts d) \<and> satisfies regex uid p r"
      using sub pg by auto
    have sec: "\<forall>s. p_section p = Some s \<and> s \<noteq> [] \<longrightarrow>
           (\<forall>r \<in> set (l_receipts res). r_section r = Some s)"
      using mem by (auto simp: satisfies_def)
    have so: "sorted_wrt (\<lambda>a b. r_date b \<le> r_date a) (l_receipts res)"
      unfolding pg by (intro sorted_wrt_take sorted_wrt_drop srt)
    have len: "length (l_receipts res) \<le> nat (limit_of p)" unfolding pg by simp
    have ind: "\<forall>sk lm res'.
           get_receipts regex now d auth_header (p\<lparr>p_skip := sk, p_limit := lm\<rparr>) = Inr res' \<longrightarrow>
           l_total res' = l_total res"
    proof (intro allI impI)
      fix sk lm res'
      assume "get_receipts regex now d auth_header (p\<lparr>p_skip := sk, p_limit := lm\<rparr>) = Inr res'"
      from get_receipts_Inr[OF assms this] show "l_total res' = l_total res" using tot by simp
    qed
    show "(\<forall>r \<in> set (l_receipts res). r \<in> set (receipts d) \<and> satisfies regex uid p r) \<and>
        (\<forall>s. p_section p = Some s \<and> s \<noteq> [] \<longrightarrow>
           (\<forall>r \<in> set (l_receipts res). r_section r = Some s)) \<and>
        sorted_wrt (\<lambda>a b. r_date b \<le> r_date a) (l_receipts res) \<and>
        length (l_receipts res) \<le> nat (limit_of p) \<and>
        l_receipts res = ?page \<and>
        mset (sort_by date_desc ?ms) = mset ?ms \<and>
        sorted_wrt (\<lambda>a b. r_date b \<le> r_date a) (sort_by date_desc ?ms) \<and>
        l_total res = length ?ms \<and>
        (\<forall>sk lm res'.
           get_receipts regex now d auth_header (p\<lparr>p_skip := sk, p_limit := lm\<rparr>) = Inr res' \<longrightarrow>
           l_total res' = l_total res)"
      using mem sec so len pg tot ind mset_sort_by[of date_desc ?ms] srt[of ?ms] by blast
  qed
  from served dflt page show ?thesis by blast
qed

text \<open>
  On the example store, the second and third of the user's four receipts.
\<close>

theorem get_receipts_page_witness:
  "current_user_id 1000 example_db (Some ''Bearer sess_a'') = Inr ''user_1'' \<and>
   get_receipts simple_regex 1000 example_db (Some ''Bearer sess_a'')
     (no_filters\<lparr>p_skip := Some 1, p_limit := Some 2\<rparr>) =
       Inr \<lparr>l_receipts = [staples, tim], l_total = 4\<rparr> \<and>
   length (filter (satisfies simple_regex ''user_1'' (no_filters\<lparr>p_skip := Some 1, p_limit := Some 2\<rparr>))
             (receipts example_db)) = 4 \<and>
   sorted_wrt (\<lambda>a b. r_date b \<le> r_date a) [staples, tim]"
proof -
  note u = example_user
  have g: "get_receipts simple_regex 1000 example_db (Some ''Bearer sess_a'')
     (no_filters\<lparr>p_skip := Some 1, p_limit := Some 2\<rparr>) =
       Inr \<lparr>l_receipts = [staples, tim], l_total = 4\<rparr>"
    by code_simp
  note t = get_receipts_page[OF u, of simple_regex "no_filters\<lparr>p_skip := Some 1, p_limit := Some 2\<rparr>"]
  from t g have
    "l_total \<lparr>l_receipts = [staples, tim], l_total = 4\<rparr> =
       length (filter (satisfies simple_regex ''user_1'' (no_filters\<lparr>p_skip := Some 1, p_limit := Some 2\<rparr>))
             (receipts example_db))"
    and "sorted_wrt (\<lambda>a b. r_date b \<le> r_date a) (l_receipts \<lparr>l_receipts = [staples, tim], l_total = 4\<rparr>)"
    by blast+
  then show ?thesis using u g by simp
qed

text \<open>
  C3 as stated fails for a negative \<^verbatim>\<open>skip\<close>: the driver refuses it, and the request
  gets no page.
\<close>

theorem negative_skip_counterexample:
  "get_receipts simple_regex 1000 example_db (Some ''Bearer sess_a'')
     (no_filters\<lparr>p_skip := Some (- 1)\<rparr>) = Inl ValueError"
  by code_simp

subsection \<open>Merchant search\<close>

lemma rx_here_literal:
  "list_all (\<lambda>c. c \<notin> set regex_meta) s \<Longrightarrow>
     rx_here s m \<longleftrightarrow> prefix (map to_lower s) (map to_lower m)"
  by (induction s m rule: rx_here.induct) (auto simp: rx_char_def regex_meta_def)

lemma rx_search_literal:
  assumes "list_all (\<lambda>c. c \<notin> set regex_meta) s"
  shows "rx_search s m \<longleftrightarrow> icontains s m"
proof (induction m)
  case Nil
  show ?case using rx_here_literal[OF assms, of "[]"] by (simp add: icontains_def)
next
  case (Cons c cs)
  show ?case
    using rx_here_literal[OF assms, of "c # cs"] Cons
    by (simp add: icontains_def sublist_Cons_right)
qed

lemma simple_regex_literal:
  assumes "list_all (\<lambda>c. c \<notin> set regex_meta) s"
  shows "simple_regex s = Some (icontains s)"
proof -
  have "list_all (\<lambda>c. c = CHR ''.'' \<or> c \<notin> set regex_meta) s"
    using assms by (auto simp: list_all_iff)
  moreover have "rx_search s = icontains s" by (rule ext) (rule rx_search_literal[OF assms])
  ultimately show ?thesis by (simp add: simple_regex_def)
qed

lemma satisfies_search:
  "satisfies regex uid (p\<lparr>p_search := Some s\<rparr>) r \<longleftrightarrow>
     satisfies regex uid (p\<lparr>p_search := None\<rparr>) r \<and>
     (s = [] \<or> (case regex s of None \<Rightarrow> False | Some m \<Rightarrow> m (merchant_name r)))"
  by (auto simp: satisfies_def)

lemma icontains_Nil: "icontains [] m"
  by (simp add: icontains_def)

text \<open>
  C2, as the code has it. The search string goes to the store as a regular expression.
  For a string \<open>s\<close> without any metacharacter, the expression matches a merchant name
  exactly when \<open>s\<close> occurs in it as a substring, letter case ignored; the listing then
  answers as it would with the literal search of the specification, its \<^verbatim>\<open>total\<close> counts
  the receipts that satisfy the other filters and whose merchant name contains \<open>s\<close>, and
  every receipt of its page has \<open>s\<close> in its merchant name.
\<close>

theorem search_without_metacharacters:
  assumes "list_all (\<lambda>c. c \<notin> set regex_meta) s"
  shows
    "(\<forall>m. rx_search s m \<longleftrightarrow> icontains s m) \<and>
     get_receipts simple_regex now d auth_header (p\<lparr>p_search := Some s\<rparr>) =
       get_receipts literal_search now d auth_header (p\<lparr>p_search := Some s\<rparr>) \<and>
     (\<forall>uid res.
        current_user_id now d auth_header = Inr uid \<and>
        get_receipts simple_regex now d auth_header (p\<lparr>p_search := Some s\<rparr>) = Inr res \<longrightarrow>
        l_total res =
          length (filter (\<lambda>r. satisfies simple_regex uid (p\<lparr>p_search := None\<rparr>) r \<and>
                               icontains s (merchant_name r)) (receipts d)) \<and>
        (\<forall>r \<in> set (l_receipts res). icontains s (merchant_name r)))"
proof -
  note lit = simple_regex_literal[OF assms]
  have eng: "\<forall>m. rx_search s m \<longleftrightarrow> icontains s m"
    using rx_search_literal[OF assms] by simp
  have m: "\<And>uid. matches simple_regex (listing_query uid (p\<lparr>p_search := Some s\<rparr>)) =
                  matches literal_search (listing_query uid (p\<lparr>p_search := Some s\<rparr>))"
    by (rule ext) (simp add: matches_def listing_query_def opt_holds_def truthy_def lit
        literal_search_def)
  have q: "\<And>uid. query_accepted simple_regex (listing_query uid (p\<lparr>p_search := Some s\<rparr>)) =
                  query_accepted literal_search (listing_query uid (p\<lparr>p_search := Some s\<rparr>))"
    by (simp add: query_accepted_listing lit literal_search_def)
  have same: "get_receipts simple_regex now d auth_header (p\<lparr>p_search := Some s\<rparr>) =
       get_receipts literal_search now d auth_header (p\<lparr>p_search := Some s\<rparr>)"
    by (simp add: get_receipts_def get_receipts_for_def with_user_def Let_def m q
        split: sum.splits)
  have sat: "\<And>uid r. satisfies simple_regex uid (p\<lparr>p_search := Some s\<rparr>) r \<longleftrightarrow>
      satisfies simple_regex uid (p\<lparr>p_search := None\<rparr>) r \<and> icontains s (merchant_name r)"
    using icontains_Nil by (auto simp: satisfies_search lit)
  have sel: "\<forall>uid res.
        current_user_id now d auth_header = Inr uid \<and>
        get_receipts simple_regex now d auth_header (p\<lparr>p_search := Some s\<rparr>) = Inr res \<longrightarrow>
        l_total res =
          length (filter (\<lambda>r. satisfies simple_regex uid (p\<lparr>p_search := None\<rparr>) r \<and>
                               icontains s (merchant_name r)) (receipts d)) \<and>
        (\<forall>r \<in> set (l_receipts res). icontains s (merchant_name r))"
  proof (intro allI impI, elim conjE)
    fix uid res
    assume u: "current_user_id now d auth_header = Inr uid"
      and r: "get_receipts simple_regex now d auth_header (p\<lparr>p_search := Some s\<rparr>) = Inr res"
    let ?ms = "filter (satisfies simple_regex uid (p\<lparr>p_search := Some s\<rparr>)) (receipts d)"
    from get_receipts_Inr[OF u r]
    have pg: "l_receipts res = take (nat (limit_of (p\<lparr>p_search := Some s\<rparr>)))
                (drop (nat (skip_of (p\<lparr>p_search := Some s\<rparr>))) (sort_by date_desc ?ms))"
      and tot: "l_total res = length ?ms" by simp_all
    have "set (l_receipts res) \<subseteq> set ?ms"
      unfolding pg using set_take_subset set_drop_subset set_sort_by by fast
    then have "\<forall>r \<in> set (l_receipts res). icontains s (merchant_name r)"
      using sat by auto
    moreover have "l_total res =
          length (filter (\<lambda>r. satisfies simple_regex uid (p\<lparr>p_search := None\<rparr>) r \<and>
                               icontains s (merchant_name r)) (receipts d))"
    proof -
      have "satisfies simple_regex uid (p\<lparr>p_search := Some s\<rparr>) =
              (\<lambda>r. satisfies simple_regex uid (p\<lparr>p_search := None\<rparr>) r \<and>
                    icontains s (merchant_name r))"
        by (rule ext) (rule sat)
      with tot show ?thesis by simp
    qed
    ultimately show "l_total res =
          length (filter (\<lambda>r. satisfies simple_regex uid (p\<lparr>p_search := None\<rparr>) r \<and>
                               icontains s (merchant_name r)) (receipts d)) \<and>
        (\<forall>r \<in> set (l_receipts res). icontains s (merchant_name r))" by blast
  qed
  from eng same sel show ?thesis by blast
qed

text \<open>
  On the example store, a search in mixed case.
\<close>

theorem search_without_metacharacters_witness:
  "list_all (\<lambda>c. c \<notin> set regex_meta) ''tIM'' \<and>
   rx_search ''tIM'' ''Tim Hortons'' \<and> icontains ''tIM'' ''Tim Hortons'' \<and>
   get_receipts literal_search 1000 example_db (Some ''Bearer sess_a'')
     (no_filters\<lparr>p_search := Some ''tIM''\<rparr>) = Inr \<lparr>l_receipts = [tim], l_total = 1\<rparr> \<and>
   get_receipts simple_regex 1000 example_db (Some ''Bearer sess_a'')
     (no_filters\<lparr>p_search := Some ''tIM''\<rparr>) = Inr \<lparr>l_receipts = [tim], l_total = 1\<rparr>"
proof -
  have h: "list_all (\<lambda>c. c \<notin> set regex_meta) ''tIM''" by code_simp
  have i: "icontains ''tIM'' ''Tim Hortons''" by code_simp
  have l: "get_receipts literal_search 1000 example_db (Some ''Bearer sess_a'')
     (no_filters\<lparr>p_search := Some ''tIM''\<rparr>) = Inr \<lparr>l_receipts = [tim], l_total = 1\<rparr>"
    by code_simp
  note t = search_without_metacharacters[OF h, of 1000 example_db "Some ''Bearer sess_a''" no_filters]
  from t i have r: "rx_search ''tIM'' ''Tim Hortons''" by blast
  from t have "get_receipts simple_regex 1000 example_db (Some ''Bearer sess_a'')
     (no_filters\<lparr>p_search := Some ''tIM''\<rparr>) =
     get_receipts literal_search 1000 example_db (Some ''Bearer sess_a'')
     (no_filters\<lparr>p_search := Some ''tIM''\<rparr>)" by blast
  then have g: "get_receipts simple_regex 1000 example_db (Some ''Bearer sess_a'')
     (no_filters\<lparr>p_search := Some ''tIM''\<rparr>) = Inr \<lparr>l_receipts = [tim], l_total = 1\<rparr>"
    by (simp only: l)
  from h r i l g show ?thesis by (intro conjI)
qed

text \<open>
  C2 as stated fails for a metacharacter: no merchant name of the example store has a
  dot in it, and the search for a dot selects every receipt of the user, where the
  literal search selects none.
\<close>

theorem search_dot_counterexample:
  "\<not> icontains ''.'' ''Tim Hortons'' \<and>
   get_receipts simple_regex 1000 example_db (Some ''Bearer sess_a'')
     (no_filters\<lparr>p_search := Some ''.''\<rparr>) =
       Inr \<lparr>l_receipts = [gift, staples, tim, uber], l_total = 4\<rparr> \<and>
   get_receipts literal_search 1000 example_db (Some ''Bearer sess_a'')
     (no_filters\<lparr>p_search := Some ''.''\<rparr>) = Inr \<lparr>l_receipts = [], l_total = 0\<rparr>"
  by code_simp

subsection \<open>Empty filter values\<close>

text \<open>
  C10. For each of \<^verbatim>\<open>section\<close>, \<^verbatim>\<open>category_id\<close>, \<^verbatim>\<open>search\<close>, \<^verbatim>\<open>date_from\<close> and
  \<^verbatim>\<open>date_to\<close>, the listing gives the same answer (the same page and total, or the same
  error) for the empty string as for the parameter left out, whatever the store, the
  clock, the header and the other parameters are.
\<close>

theorem empty_string_filter_is_no_filter:
  "get_receipts regex now d auth_header (p\<lparr>p_section := Some []\<rparr>) =
     get_receipts regex now d auth_header (p\<lparr>p_section := None\<rparr>) \<and>
   get_receipts regex now d auth_header (p\<lparr>p_category_id := Some []\<rparr>) =
     get_receipts regex now d auth_header (p\<lparr>p_category_id := None\<rparr>) \<and>
   get_receipts regex now d auth_header (p\<lparr>p_search := Some []\<rparr>) =
     get_receipts regex now d auth_header (p\<lparr>p_search := None\<rparr>) \<and>
   get_receipts regex now d auth_header (p\<lparr>p_date_from := Some []\<rparr>) =
     get_receipts regex now d auth_header (p\<lparr>p_date_from := None\<rparr>) \<and>
   get_receipts regex now d auth_header (p\<lparr>p_date_to := Some []\<rparr>) =
     get_receipts regex now d auth_header (p\<lparr>p_date_to := None\<rparr>)"
  by (simp add: get_receipts_def get_receipts_for_def[abs_def] listing_query_def truthy_def
      skip_of_def limit_of_def)

text \<open>
  On the example store: with an empty section, and with an empty upper date, the
  listing has all four receipts of the user.
\<close>

theorem empty_string_filter_is_no_filter_witness:
  "get_receipts simple_regex 1000 example_db (Some ''Bearer sess_a'')
     (no_filters\<lparr>p_section := Some []\<rparr>) =
       Inr \<lparr>l_receipts = [gift, staples, tim, uber], l_total = 4\<rparr> \<and>
   get_receipts simple_regex 1000 example_db (Some ''Bearer sess_a'')
     (no_filters\<lparr>p_date_to := Some []\<rparr>) =
       Inr \<lparr>l_receipts = [gift, staples, tim, uber], l_total = 4\<rparr>"
proof -
  have n: "get_receipts simple_regex 1000 example_db (Some ''Bearer sess_a'') no_filters =
       Inr \<lparr>l_receipts = [gift, staples, tim, uber], l_total = 4\<rparr>"
    by code_simp
  have s: "no_filters\<lparr>p_section := None\<rparr> = no_filters" "no_filters\<lparr>p_date_to := None\<rparr> = no_filters"
    by (simp_all add: no_filters_def)
  from empty_string_filter_is_no_filter[of simple_regex 1000 example_db "Some ''Bearer sess_a''" no_filters]
  show ?thesis by (simp only: s n)
qed

subsection \<open>Dashboard windows\<close>

lemma mongo_group_Nil: "mongo_group key [] = []"
  by (simp add: mongo_group_def)

lemma window_empty:
  assumes "\<forall>r \<in> set rs. \<not> in_window uid lo hi r"
  shows "window_data (window_pipeline uid lo hi rs) = \<lparr>a_total = 0, a_tax = 0, a_count = 0\<rparr>"
proof -
  from assms have "filter (in_window uid lo hi) rs = []" by (simp add: filter_empty_conv)
  then show ?thesis by (simp add: window_pipeline_def window_data_def mongo_group_Nil)
qed

lemma dashboard_Inr:
  assumes "current_user_id now d auth_header = Inr uid"
  shows "\<exists>res. get_dashboard_summary now today d auth_header = Inr res \<and>
     monthly res =
       window_data (window_pipeline uid (strftime_ymd (today\<lparr>day := 1\<rparr>)) (strftime_ymd today)
                      (receipts d)) \<and>
     yearly res =
       window_data (window_pipeline uid (strftime_ymd (today\<lparr>month := 1, day := 1\<rparr>))
                      (strftime_ymd today) (receipts d)) \<and>
     dash_categories res =
       category_data (categories d)
         (category_pipeline uid (strftime_ymd (today\<lparr>month := 1, day := 1\<rparr>))
            (strftime_ymd today) (receipts d))"
  using assms
  by (simp add: get_dashboard_summary_def with_user_def dashboard_for_def Let_def)

text \<open>
  C6. For a request that passes the gate as the user \<open>uid\<close>, the dashboard always
  answers, with no error. When no receipt of the user has its date in the month's
  window, from the first of the month to today, both included, the monthly figures are
  total 0, tax 0 and count 0; and so for the yearly figures and the window from the first
  of January. The same holds of the window aggregate on any bounds: without a receipt of
  the user between them, the pipeline returns no group and the figures are zero.
\<close>

theorem empty_window_is_zero:
  assumes "current_user_id now d auth_header = Inr uid"
  shows
    "(\<exists>res. get_dashboard_summary now today d auth_header = Inr res \<and>
        ((\<forall>r \<in> set (receipts d).
            \<not> (r_user_id r = uid \<and> strftime_ymd (today\<lparr>day := 1\<rparr>) \<le> r_date r \<and>
               r_date r \<le> strftime_ymd today)) \<longrightarrow>
         monthly res = \<lparr>a_total = 0, a_tax = 0, a_count = 0\<rparr>) \<and>
        ((\<forall>r \<in> set (receipts d).
            \<not> (r_user_id r = uid \<and> strftime_ymd (today\<lparr>month := 1, day := 1\<rparr>) \<le> r_date r \<and>
               r_date r \<le> strftime_ymd today)) \<longrightarrow>
         yearly res = \<lparr>a_total = 0, a_tax = 0, a_count = 0\<rparr>)) \<and>
     (\<forall>lo hi. (\<forall>r \<in> set (receipts d). \<not> (r_user_id r = uid \<and> lo \<le> r_date r \<and> r_date r \<le> hi)) \<longrightarrow>
        window_pipeline uid lo hi (receipts d) = [] \<and>
        window_data (window_pipeline uid lo hi (receipts d)) =
          \<lparr>a_total = 0, a_tax = 0, a_count = 0\<rparr>)"
proof -
  have w: "\<And>lo hi. (\<forall>r \<in> set (receipts d). \<not> (r_user_id r = uid \<and> lo \<le> r_date r \<and> r_date r \<le> hi)) \<Longrightarrow>
        window_pipeline uid lo hi (receipts d) = [] \<and>
        window_data (window_pipeline uid lo hi (receipts d)) =
          \<lparr>a_total = 0, a_tax = 0, a_count = 0\<rparr>"
  proof -
    fix lo hi
    assume "\<forall>r \<in> set (receipts d). \<not> (r_user_id r = uid \<and> lo \<le> r_date r \<and> r_date r \<le> hi)"
    then have e: "\<forall>r \<in> set (receipts d). \<not> in_window uid lo hi r" by (simp add: in_window_def)
    then have "filter (in_window uid lo hi) (receipts d) = []" by (simp add: filter_empty_conv)
    then have "window_pipeline uid lo hi (receipts d) = []"
      by (simp add: window_pipeline_def mongo_group_Nil)
    with window_empty[OF e] show "window_pipeline uid lo hi (receipts d) = [] \<and>
        window_data (window_pipeline uid lo hi (receipts d)) =
          \<lparr>a_total = 0, a_tax = 0, a_count = 0\<rparr>" by simp
  qed
  from dashboard_Inr[OF assms, of today] obtain res where
    r: "get_dashboard_summary now today d auth_header = Inr res"
    and m: "monthly res =
       window_data (window_pipeline uid (strftime_ymd (today\<lparr>day := 1\<rparr>)) (strftime_ymd today)
                      (receipts d))"
    and y: "yearly res =
       window_data (window_pipeline uid (strftime_ymd (today\<lparr>month := 1, day := 1\<rparr>))
                      (strftime_ymd today) (receipts d))" by blast
  have mz: "(\<forall>r \<in> set (receipts d).
            \<not> (r_user_id r = uid \<and> strftime_ymd (today\<lparr>day := 1\<rparr>) \<le> r_date r \<and>
               r_date r \<le> strftime_ymd today)) \<longrightarrow>
         monthly res = \<lparr>a_total = 0, a_tax = 0, a_count = 0\<rparr>"
  proof
    assume h: "\<forall>r \<in> set (receipts d).
            \<not> (r_user_id r = uid \<and> strftime_ymd (today\<lparr>day := 1\<rparr>) \<le> r_date r \<and>
               r_date r \<le> strftime_ymd today)"
    from w[OF h, THEN conjunct2] m show "monthly res = \<lparr>a_total = 0, a_tax = 0, a_count = 0\<rparr>" by simp
  qed
  have yz: "(\<forall>r \<in> set (receipts d).
            \<not> (r_user_id r = uid \<and> strftime_ymd (today\<lparr>month := 1, day := 1\<rparr>) \<le> r_date r \<and>
               r_date r \<le> strftime_ymd today)) \<longrightarrow>
         yearly res = \<lparr>a_total = 0, a_tax = 0, a_count = 0\<rparr>"
  proof
    assume h: "\<forall>r \<in> set (receipts d).
            \<not> (r_user_id r = uid \<and> strftime_ymd (today\<lparr>month := 1, day := 1\<rparr>) \<le> r_date r \<and>
               r_date r \<le> strftime_ymd today)"
    from w[OF h, THEN conjunct2] y show "yearly res = \<lparr>a_total = 0, a_tax = 0, a_count = 0\<rparr>" by simp
  qed
  from r mz yz w show ?thesis by blast
qed

text \<open>
  On the example store in January 2027, when the last receipt is of February 2026.
\<close>

theorem empty_window_is_zero_witness:
  "current_user_id 1000 example_db (Some ''Bearer sess_a'') = Inr ''user_1'' \<and>
   list_all (\<lambda>r. \<not> (r_user_id r = ''user_1'' \<and> ''2027-01-01'' \<le> r_date r \<and> r_date r \<le> ''2027-01-10''))
     (receipts example_db) \<and>
   strftime_ymd \<lparr>year = 2027, month = 1, day = 10\<rparr> = ''2027-01-10'' \<and>
   strftime_ymd (\<lparr>year = 2027, month = 1, day = 10\<rparr>\<lparr>day := 1\<rparr>) = ''2027-01-01'' \<and>
   strftime_ymd (\<lparr>year = 2027, month = 1, day = 10\<rparr>\<lparr>month := 1, day := 1\<rparr>) = ''2027-01-01'' \<and>
   (\<exists>res. get_dashboard_summary 1000 \<lparr>year = 2027, month = 1, day = 10\<rparr> example_db
             (Some ''Bearer sess_a'') = Inr res \<and>
          monthly res = \<lparr>a_total = 0, a_tax = 0, a_count = 0\<rparr> \<and>
          yearly res = \<lparr>a_total = 0, a_tax = 0, a_count = 0\<rparr>)"
proof -
  note u = example_user
  have e: "list_all (\<lambda>r. \<not> (r_user_id r = ''user_1'' \<and> ''2027-01-01'' \<le> r_date r \<and> r_date r \<le> ''2027-01-10''))
     (receipts example_db)"
    by code_simp
  have s: "strftime_ymd \<lparr>year = 2027, month = 1, day = 10\<rparr> = ''2027-01-10''"
    "strftime_ymd (\<lparr>year = 2027, month = 1, day = 10\<rparr>\<lparr>day := 1\<rparr>) = ''2027-01-01''"
    "strftime_ymd (\<lparr>year = 2027, month = 1, day = 10\<rparr>\<lparr>month := 1, day := 1\<rparr>) = ''2027-01-01''"
    by code_simp+
  from e have b: "\<forall>r \<in> set (receipts example_db).
      \<not> (r_user_id r = ''user_1'' \<and> ''2027-01-01'' \<le> r_date r \<and> r_date r \<le> ''2027-01-10'')"
    by (simp add: list_all_iff)
  from empty_window_is_zero[OF u, of "\<lparr>year = 2027, month = 1, day = 10\<rparr>"]
  have "\<exists>res. get_dashboard_summary 1000 \<lparr>year = 2027, month = 1, day = 10\<rparr> example_db
             (Some ''Bearer sess_a'') = Inr res \<and>
          monthly res = \<lparr>a_total = 0, a_tax = 0, a_count = 0\<rparr> \<and>
          yearly res = \<lparr>a_total = 0, a_tax = 0, a_count = 0\<rparr>"
    unfolding s using b by blast
  with u e s show ?thesis by blast
qed

subsection \<open>The category breakdown\<close>















end
